theory Spec2Isabelle
  imports Complex_Main
begin

section \<open>Prism elements: shape functions and their first derivatives\<close>

text \<open>
  \<^verbatim>\<open>src/EasyFEA/fem/elems/_prism.py\<close>. A shape function is a Python lambda of the three
  reference coordinates \<open>(r, s, t)\<close>; Python's true division on floats is division of
  reals here. \<open>_N\<close> returns the lambdas as a column (\<open>reshape(-1, 1)\<close>): a list of
  one-element rows. \<open>_dN\<close> returns one row of three lambdas per node.
\<close>

type_synonym shape_fun = "real \<Rightarrow> real \<Rightarrow> real \<Rightarrow> real"

definition PRISM6_N :: "shape_fun list list" where
  "PRISM6_N =
    [[\<lambda>r s t. (t - 1) * (r + s - 1) / 2],
     [\<lambda>r s t. - r * (t - 1) / 2],
     [\<lambda>r s t. - s * (t - 1) / 2],
     [\<lambda>r s t. - (t + 1) * (r + s - 1) / 2],
     [\<lambda>r s t. r * (t + 1) / 2],
     [\<lambda>r s t. s * (t + 1) / 2]]"

definition PRISM6_dN :: "shape_fun list list" where
  "PRISM6_dN =
    [[\<lambda>r s t. t / 2 - 1 / 2,
      \<lambda>r s t. t / 2 - 1 / 2,
      \<lambda>r s t. r / 2 + s / 2 - 1 / 2],
     [\<lambda>r s t. 1 / 2 - t / 2,
      \<lambda>r s t. 0,
      \<lambda>r s t. - r / 2],
     [\<lambda>r s t. 0,
      \<lambda>r s t. 1 / 2 - t / 2,
      \<lambda>r s t. - s / 2],
     [\<lambda>r s t. - t / 2 - 1 / 2,
      \<lambda>r s t. - t / 2 - 1 / 2,
      \<lambda>r s t. - r / 2 - s / 2 + 1 / 2],
     [\<lambda>r s t. t / 2 + 1 / 2,
      \<lambda>r s t. 0,
      \<lambda>r s t. r / 2],
     [\<lambda>r s t. 0,
      \<lambda>r s t. t / 2 + 1 / 2,
      \<lambda>r s t. s / 2]]"

definition PRISM15_N :: "shape_fun list list" where
  "PRISM15_N =
    [[\<lambda>r s t. - (t - 1) * (r + s - 1) * (2 * r + 2 * s + t) / 2],
     [\<lambda>r s t. - r * (t - 1) * (2 * r - t - 2) / 2],
     [\<lambda>r s t. - s * (t - 1) * (2 * s - t - 2) / 2],
     [\<lambda>r s t. (t + 1) * (r + s - 1) * (2 * r + 2 * s - t) / 2],
     [\<lambda>r s t. r * (t + 1) * (2 * r + t - 2) / 2],
     [\<lambda>r s t. s * (t + 1) * (2 * s + t - 2) / 2],
     [\<lambda>r s t. 2 * r * (t - 1) * (r + s - 1)],
     [\<lambda>r s t. 2 * s * (t - 1) * (r + s - 1)],
     [\<lambda>r s t. (t - 1) * (t + 1) * (r + s - 1)],
     [\<lambda>r s t. - 2 * r * s * (t - 1)],
     [\<lambda>r s t. - r * (t - 1) * (t + 1)],
     [\<lambda>r s t. - s * (t - 1) * (t + 1)],
     [\<lambda>r s t. - 2 * r * (t + 1) * (r + s - 1)],
     [\<lambda>r s t. - 2 * s * (t + 1) * (r + s - 1)],
     [\<lambda>r s t. 2 * r * s * (t + 1)]]"

definition PRISM15_dN :: "shape_fun list list" where
  "PRISM15_dN =
    [[\<lambda>r s t. - (t - 1) * (r + s - 1) - (t - 1) * (2 * r + 2 * s + t) / 2,
      \<lambda>r s t. - (t - 1) * (r + s - 1) - (t - 1) * (2 * r + 2 * s + t) / 2,
      \<lambda>r s t. - (t - 1) * (r + s - 1) / 2 - (r + s - 1) * (2 * r + 2 * s + t) / 2],
     [\<lambda>r s t. - r * (t - 1) - (t - 1) * (2 * r - t - 2) / 2,
      \<lambda>r s t. 0,
      \<lambda>r s t. r * (t - 1) / 2 - r * (2 * r - t - 2) / 2],
     [\<lambda>r s t. 0,
      \<lambda>r s t. - s * (t - 1) - (t - 1) * (2 * s - t - 2) / 2,
      \<lambda>r s t. s * (t - 1) / 2 - s * (2 * s - t - 2) / 2],
     [\<lambda>r s t. (t + 1) * (r + s - 1) + (t + 1) * (2 * r + 2 * s - t) / 2,
      \<lambda>r s t. (t + 1) * (r + s - 1) + (t + 1) * (2 * r + 2 * s - t) / 2,
      \<lambda>r s t. - (t + 1) * (r + s - 1) / 2 + (r + s - 1) * (2 * r + 2 * s - t) / 2],
     [\<lambda>r s t. r * (t + 1) + (t + 1) * (2 * r + t - 2) / 2,
      \<lambda>r s t. 0,
      \<lambda>r s t. r * (t + 1) / 2 + r * (2 * r + t - 2) / 2],
     [\<lambda>r s t. 0,
      \<lambda>r s t. s * (t + 1) + (t + 1) * (2 * s + t - 2) / 2,
      \<lambda>r s t. s * (t + 1) / 2 + s * (2 * s + t - 2) / 2],
     [\<lambda>r s t. 2 * r * (t - 1) + 2 * (t - 1) * (r + s - 1),
      \<lambda>r s t. 2 * r * (t - 1),
      \<lambda>r s t. 2 * r * (r + s - 1)],
     [\<lambda>r s t. 2 * s * (t - 1),
      \<lambda>r s t. 2 * s * (t - 1) + 2 * (t - 1) * (r + s - 1),
      \<lambda>r s t. 2 * s * (r + s - 1)],
     [\<lambda>r s t. (t - 1) * (t + 1),
      \<lambda>r s t. (t - 1) * (t + 1),
      \<lambda>r s t. (t - 1) * (r + s - 1) + (t + 1) * (r + s - 1)],
     [\<lambda>r s t. - 2 * s * (t - 1),
      \<lambda>r s t. - 2 * r * (t - 1),
      \<lambda>r s t. - 2 * r * s],
     [\<lambda>r s t. - (t - 1) * (t + 1),
      \<lambda>r s t. 0,
      \<lambda>r s t. - r * (t - 1) - r * (t + 1)],
     [\<lambda>r s t. 0,
      \<lambda>r s t. - (t - 1) * (t + 1),
      \<lambda>r s t. - s * (t - 1) - s * (t + 1)],
     [\<lambda>r s t. - 2 * r * (t + 1) - 2 * (t + 1) * (r + s - 1),
      \<lambda>r s t. - 2 * r * (t + 1),
      \<lambda>r s t. - 2 * r * (r + s - 1)],
     [\<lambda>r s t. - 2 * s * (t + 1),
      \<lambda>r s t. - 2 * s * (t + 1) - 2 * (t + 1) * (r + s - 1),
      \<lambda>r s t. - 2 * s * (r + s - 1)],
     [\<lambda>r s t. 2 * s * (t + 1),
      \<lambda>r s t. 2 * r * (t + 1),
      \<lambda>r s t. 2 * r * s]]"

text \<open>
  Evaluation of a column of shape functions at a reference point, and the notions the
  claims are stated with: the \<open>k\<close>-th coordinate of a point, and a shape function seen
  as a function of its \<open>k\<close>-th coordinate alone (order \<open>r, s, t\<close>).
\<close>

definition eval_N :: "shape_fun list list \<Rightarrow> real \<Rightarrow> real \<Rightarrow> real \<Rightarrow> real list" where
  "eval_N N r s t = map (\<lambda>row. (row ! 0) r s t) N"

definition coord :: "nat \<Rightarrow> real \<Rightarrow> real \<Rightarrow> real \<Rightarrow> real" where
  "coord k r s t = (if k = 0 then r else if k = 1 then s else t)"

definition along :: "nat \<Rightarrow> shape_fun \<Rightarrow> real \<Rightarrow> real \<Rightarrow> real \<Rightarrow> (real \<Rightarrow> real)" where
  "along k f r s t = (\<lambda>x. if k = 0 then f x s t else if k = 1 then f r x t else f r s x)"

section \<open>Python and numpy values used by the elastic laws\<close>

text \<open>
  \<^verbatim>\<open>src/EasyFEA/materials/_elastic.py\<close>. Material parameters are Python floats and the
  matrices are two-dimensional float arrays (the non-heterogeneous case); both are
  modelled in exact arithmetic, a float as a real and an array as a list of rows.
  Every exception the source can raise is a value of \<open>error\<close>; an assertion keeps the
  message of the source.
\<close>

datatype error =
    AssertionError string
  | ParameterOutOfDomain
  | ZeroDivisionError
  | LinAlgError
  | ValueError
  | IndexError
  | AttributeError
  | UnboundLocalError
  | NonFinite
  | OverflowError

datatype pyval = PyBool bool | PyInt int | PyFloat real | PyStr string | PyNone

type_synonym vec = "real list"
type_synonym matrix = "real list list"

definition and_then :: "error + 'a \<Rightarrow> ('a \<Rightarrow> error + 'b) \<Rightarrow> error + 'b" where
  "and_then m f = (case m of Inl e \<Rightarrow> Inl e | Inr x \<Rightarrow> f x)"

definition py_assert :: "bool \<Rightarrow> string \<Rightarrow> error + unit" where
  "py_assert b msg = (if b then Inr () else Inl (AssertionError msg))"

text \<open>Python's \<open>a / b\<close> on floats raises on a zero divisor.\<close>

definition py_div :: "real \<Rightarrow> real \<Rightarrow> error + real" where
  "py_div a b = (if b = 0 then Inl ZeroDivisionError else Inr (a / b))"

text \<open>
  numpy's \<open>a / b\<close> on float64 scalars does not raise: a zero divisor gives \<open>inf\<close> or
  \<open>nan\<close>, which is \<open>None\<close> here. Every comparison of \<open>nan\<close> is false, and \<open>inf\<close> is
  below no tolerance, so a test \<open>x <= tol\<close> or \<open>x < tol\<close> on \<open>None\<close> is false.
\<close>

definition np_divide :: "real \<Rightarrow> real \<Rightarrow> real option" where
  "np_divide a b = (if b = 0 then None else Some (a / b))"

definition np_le :: "real option \<Rightarrow> real \<Rightarrow> bool" where
  "np_le x tol = (case x of None \<Rightarrow> False | Some y \<Rightarrow> y \<le> tol)"

definition np_less :: "real option \<Rightarrow> real \<Rightarrow> bool" where
  "np_less x tol = (case x of None \<Rightarrow> False | Some y \<Rightarrow> y < tol)"

text \<open>The float literal \<open>1e-12\<close> of the source.\<close>

definition tol12 :: real where
  "tol12 = 1 / 10 ^ 12"

text \<open>
  Shape of a two-dimensional array, and numpy's broadcasting of an elementwise binary
  operation over two of them: the sizes along an axis must be equal, or one of them 1
  (that operand is then repeated); otherwise numpy raises \<open>ValueError\<close>.
\<close>

definition np_shape :: "matrix \<Rightarrow> nat \<times> nat" where
  "np_shape M = (length M, (case M of [] \<Rightarrow> 0 | row # _ \<Rightarrow> length row))"

definition np_broadcast :: "(real \<Rightarrow> real \<Rightarrow> real) \<Rightarrow> matrix \<Rightarrow> matrix \<Rightarrow> error + matrix" where
  "np_broadcast f A B =
    (case (np_shape A, np_shape B) of ((m, n), (p, q)) \<Rightarrow>
      if (m = p \<or> m = 1 \<or> p = 1) \<and> (n = q \<or> n = 1 \<or> q = 1) then
        Inr (map (\<lambda>i. map (\<lambda>j. f (A ! (if m = 1 then 0 else i) ! (if n = 1 then 0 else j))
                                   (B ! (if p = 1 then 0 else i) ! (if q = 1 then 0 else j)))
                          [0..<(if n = 1 then q else n)])
                 [0..<(if m = 1 then p else m)])
      else Inl ValueError)"

definition np_add :: "matrix \<Rightarrow> matrix \<Rightarrow> error + matrix" where
  "np_add = np_broadcast (+)"

definition np_sub :: "matrix \<Rightarrow> matrix \<Rightarrow> error + matrix" where
  "np_sub = np_broadcast (-)"

text \<open>The same for one-dimensional arrays (\<open>self.axis_l - np.array([1,0,0])\<close>).\<close>

definition np_sub1 :: "vec \<Rightarrow> vec \<Rightarrow> error + vec" where
  "np_sub1 a b =
    (let m = length a; p = length b in
      if m = p \<or> m = 1 \<or> p = 1 then
        Inr (map (\<lambda>i. a ! (if m = 1 then 0 else i) - b ! (if p = 1 then 0 else i))
                 [0..<(if m = 1 then p else m)])
      else Inl ValueError)"

text \<open>A float times an array: \<open>c * M\<close>.\<close>

definition scal :: "real \<Rightarrow> matrix \<Rightarrow> matrix" where
  "scal c M = map (map ((*) c)) M"

definition eye :: "nat \<Rightarrow> matrix" where
  "eye n = map (\<lambda>i. map (\<lambda>j. if i = j then 1 else 0) [0..<n]) [0..<n]"

text \<open>\<open>np.linalg.norm\<close>: the Frobenius norm of a matrix, the 2-norm of a vector.\<close>

definition linalg_norm :: "matrix \<Rightarrow> real" where
  "linalg_norm M = sqrt (sum_list (map (\<lambda>row. sum_list (map (\<lambda>x. x\<^sup>2) row)) M))"

definition linalg_norm1 :: "vec \<Rightarrow> real" where
  "linalg_norm1 a = sqrt (sum_list (map (\<lambda>x. x\<^sup>2) a))"

text \<open>\<open>a @ b\<close> on two one-dimensional arrays of the same size (the dot product).\<close>

definition dot :: "vec \<Rightarrow> vec \<Rightarrow> real" where
  "dot a b = sum_list (map2 (*) a b)"

text \<open>
  The matrix product, used to state what an inverse is: entry \<open>(i, j)\<close> of \<open>mat_mul A B\<close>
  is the sum over \<open>k\<close> of \<open>A[i][k] * B[k][j]\<close>.
\<close>

definition is_mat :: "nat \<Rightarrow> nat \<Rightarrow> matrix \<Rightarrow> bool" where
  "is_mat n m A \<longleftrightarrow> length A = n \<and> list_all (\<lambda>row. length row = m) A"

definition mat_mul :: "matrix \<Rightarrow> matrix \<Rightarrow> matrix" where
  "mat_mul A B =
     map (\<lambda>row. map (\<lambda>j. sum_list (map (\<lambda>k. row ! k * B ! k ! j) [0..<length B]))
                     [0..<snd (np_shape B)]) A"

definition is_inverse :: "nat \<Rightarrow> matrix \<Rightarrow> matrix \<Rightarrow> bool" where
  "is_inverse n N M \<longleftrightarrow> is_mat n n N \<and> mat_mul N M = eye n \<and> mat_mul M N = eye n"

text \<open>
  \<open>np.linalg.inv\<close> in exact arithmetic: the inverse of a square matrix that has one
  (it is unique, lemma \<open>is_inverse_unique\<close>), and \<open>LinAlgError\<close> for a matrix that is
  not square or is singular.
\<close>

definition linalg_inv :: "matrix \<Rightarrow> error + matrix" where
  "linalg_inv M =
    (if is_mat (length M) (length M) M \<and> (\<exists>N. is_inverse (length M) N M)
     then Inr (THE N. is_inverse (length M) N M)
     else Inl LinAlgError)"

text \<open>
  Index arrays: \<open>M[x,:]\<close> selects the rows and \<open>M[:,x]\<close> the columns listed in \<open>x\<close>; an
  index out of range raises \<open>IndexError\<close>.
\<close>

definition take_rows :: "nat list \<Rightarrow> matrix \<Rightarrow> error + matrix" where
  "take_rows x M =
    (if list_all (\<lambda>i. i < fst (np_shape M)) x then Inr (map (\<lambda>i. M ! i) x) else Inl IndexError)"

definition take_cols :: "nat list \<Rightarrow> matrix \<Rightarrow> error + matrix" where
  "take_cols x M =
    (if list_all (\<lambda>j. j < snd (np_shape M)) x then Inr (map (\<lambda>row. map (\<lambda>j. row ! j) x) M)
     else Inl IndexError)"

section \<open>Helpers of the elastic laws that the module imports\<close>

text \<open>
  \<open>_elastic.py\<close> imports its helpers from \<open>_utils\<close> and \<open>Geoms\<close>, two modules that are
  not among the sources at hand; each helper is modelled from the specification.
\<close>

text \<open>
  Modelled from the spec: \<open>_IModel._Test_Sup0\<close> is missing. "Setters on E enforce
  E > 0; [...] violating either fails with a parameter out of domain condition".
\<close>

definition Test_Sup0 :: "real \<Rightarrow> error + unit" where
  "Test_Sup0 value = (if value > 0 then Inr () else Inl ParameterOutOfDomain)"

text \<open>
  Modelled from the spec: \<open>_IModel._Test_In\<close> is missing. "setters on v enforce v within
  the admissible range (open interval excluding physically inadmissible endpoints [...])";
  the bounds are the arguments, \<open>-1\<close> and \<open>0.5\<close> when the caller gives none.
\<close>

definition Test_In :: "real \<Rightarrow> real \<Rightarrow> real \<Rightarrow> error + unit" where
  "Test_In value bInf bSup =
     (if bInf < value \<and> value < bSup then Inr () else Inl ParameterOutOfDomain)"

text \<open>
  Modelled from the spec: \<open>_IModel.Need_Update\<close> and \<open>needUpdate\<close> are missing. "any
  setter on a physical parameter marks the law stale; the next read of C or S triggers
  recomputation and clears the stale flag".
\<close>

record IModel =
  needUpdate :: bool

definition Need_Update :: "bool \<Rightarrow> 'a IModel_scheme \<Rightarrow> 'a IModel_scheme" where
  "Need_Update value s = s\<lparr>needUpdate := value\<rparr>"

text \<open>
  Modelled from the spec: \<open>KelvinMandel_Matrix\<close> is missing. "convert to Kelvin-Mandel by
  scaling shear rows/columns by sqrt 2": entry \<open>(i, j)\<close> is multiplied by the factors of
  row \<open>i\<close> and of column \<open>j\<close>, which are 1 for a normal and \<open>sqrt 2\<close> for a shear
  component.
\<close>

definition KelvinMandel_coef :: "int \<Rightarrow> vec" where
  "KelvinMandel_coef dim' = (if dim' = 2 then [1, 1, sqrt 2] else [1, 1, 1, sqrt 2, sqrt 2, sqrt 2])"

definition KelvinMandel_Matrix :: "int \<Rightarrow> matrix \<Rightarrow> matrix" where
  "KelvinMandel_Matrix dim' M =
     map2 (\<lambda>ci row. map2 (\<lambda>cj x. ci * cj * x) (KelvinMandel_coef dim') row)
          (KelvinMandel_coef dim') M"

text \<open>
  Modelled from the spec: \<open>Heterogeneous_Array\<close> is missing. It adds a leading batch
  dimension when a parameter is an array; on the float matrices of this model there is
  no batch and the matrix is returned as it is.
\<close>

definition Heterogeneous_Array :: "matrix \<Rightarrow> matrix" where
  "Heterogeneous_Array M = M"

text \<open>
  Modelled from the spec: \<open>Tensor_Product\<close> is missing. On two vectors it is the tensor
  (outer) product, as in "E1 = 1/3 (I (x) I)".
\<close>

definition Tensor_Product :: "vec \<Rightarrow> vec \<Rightarrow> matrix" where
  "Tensor_Product a b = map (\<lambda>x. map (\<lambda>y. x * y) b) a"

text \<open>
  Modelled from the spec: \<open>As_Coordinates\<close> and \<open>Normalize_vect\<close> are missing ("coordinate
  coercion/validation and normalization"). A sequence of numbers is coerced to the
  float vector of the same components. Normalisation divides by the norm; numpy
  gives \<open>nan\<close> components for the zero vector, which no real stands for (\<open>NonFinite\<close>).
\<close>

definition As_Coordinates :: "vec \<Rightarrow> vec" where
  "As_Coordinates a = a"

definition Normalize_vect :: "vec \<Rightarrow> error + vec" where
  "Normalize_vect a =
     (if linalg_norm1 a = 0 then Inl NonFinite else Inr (map (\<lambda>x. x / linalg_norm1 a) a))"

section \<open>The base class \<open>_Elas\<close>\<close>

text \<open>
  The attributes of an instance. \<open>__thickness\<close> is set in dimension 2 only; \<open>__C\<close> and
  \<open>__S\<close> do not exist before the first update. A method that changes the instance takes
  the state and returns the outcome with the state it leaves behind, also when it raises.
\<close>

record Elas = IModel +
  Elas_dim :: int
  Elas_thickness :: "real option"
  Elas_planeStress :: bool
  Elas_C :: "matrix option"
  Elas_S :: "matrix option"

definition planeStress_setter :: "pyval \<Rightarrow> 'a Elas_scheme \<Rightarrow> (error + unit) \<times> 'a Elas_scheme" where
  "planeStress_setter value s =
     (case value of
        PyBool b \<Rightarrow>
          (Inr (), (if Elas_planeStress s \<noteq> b then Need_Update True s else s)
                     \<lparr>Elas_planeStress := b\<rparr>)
      | _ \<Rightarrow> (Inr (), s))"

definition C_setter :: "matrix \<Rightarrow> 'a Elas_scheme \<Rightarrow> (error + unit) \<times> 'a Elas_scheme" where
  "C_setter array s =
     (let shape = (if Elas_dim s = 2 then (3, 3) else (6, 6)) in
      if np_shape array = shape then (Inr (), s\<lparr>Elas_C := Some array\<rparr>)
      else (Inl (AssertionError ''With dim = {self.dim} array must be a {shape} matrix''), s))"

definition S_setter :: "matrix \<Rightarrow> 'a Elas_scheme \<Rightarrow> (error + unit) \<times> 'a Elas_scheme" where
  "S_setter array s =
     (let shape = (if Elas_dim s = 2 then (3, 3) else (6, 6)) in
      if np_shape array = shape then (Inr (), s\<lparr>Elas_S := Some array\<rparr>)
      else (Inl (AssertionError ''With dim = {self.dim} array must be a {shape} matrix''), s))"

section \<open>Isotropic law\<close>

record Elas_Isot = Elas +
  Elas_Isot_dim :: int
  Elas_Isot_E :: real
  Elas_Isot_v :: real

definition E_setter :: "real \<Rightarrow> Elas_Isot \<Rightarrow> (error + unit) \<times> Elas_Isot" where
  "E_setter value s =
     (case Test_Sup0 value of
        Inl e \<Rightarrow> (Inl e, s)
      | Inr _ \<Rightarrow> (Inr (), (Need_Update True s)\<lparr>Elas_Isot_E := value\<rparr>))"

definition v_setter :: "real \<Rightarrow> Elas_Isot \<Rightarrow> (error + unit) \<times> Elas_Isot" where
  "v_setter value s =
     (case Test_In value (- 1) (1 / 2) of
        Inl e \<Rightarrow> (Inl e, s)
      | Inr _ \<Rightarrow> (Inr (), (Need_Update True s)\<lparr>Elas_Isot_v := value\<rparr>))"

text \<open>
  \<open>__init__\<close>: the checks in the order of the source (the two setters, then
  \<open>_Elas.__init__\<close>); the setters leave the new instance marked for update.
\<close>

definition Elas_Isot_init :: "int \<Rightarrow> real \<Rightarrow> real \<Rightarrow> bool \<Rightarrow> real \<Rightarrow> error + Elas_Isot" where
  "Elas_Isot_init dim' E v planeStress thickness =
     and_then (py_assert (dim' = 2 \<or> dim' = 3) ''Must be dimension 2 or 3'') (\<lambda>_.
     and_then (Test_Sup0 E) (\<lambda>_.
     and_then (Test_In v (- 1) (1 / 2)) (\<lambda>_.
     and_then (if dim' = 2 then py_assert (thickness > 0) ''Must be greater than 0'' else Inr ()) (\<lambda>_.
       Inr \<lparr>needUpdate = True,
            Elas_dim = dim',
            Elas_thickness = (if dim' = 2 then Some thickness else None),
            Elas_planeStress = (if dim' = 2 then planeStress else False),
            Elas_C = None, Elas_S = None,
            Elas_Isot_dim = dim', Elas_Isot_E = E, Elas_Isot_v = v\<rparr>))))"

definition get_lambda :: "Elas_Isot \<Rightarrow> error + real" where
  "get_lambda s =
     (let E = Elas_Isot_E s; v = Elas_Isot_v s in
      and_then (py_div (E * v) ((1 + v) * (1 - 2 * v))) (\<lambda>l.
        if Elas_Isot_dim s = 2 \<and> Elas_planeStress s then py_div (E * v) (1 - v\<^sup>2)
        else Inr l))"

definition get_mu :: "Elas_Isot \<Rightarrow> error + real" where
  "get_mu s = (let E = Elas_Isot_E s; v = Elas_Isot_v s in py_div E (2 * (1 + v)))"

definition get_bulk :: "Elas_Isot \<Rightarrow> error + real" where
  "get_bulk s =
     and_then (get_mu s) (\<lambda>mu.
     and_then (get_lambda s) (\<lambda>l.
     and_then (py_div (2 * mu) (of_int (Elas_dim s))) (\<lambda>q. Inr (l + q))))"

definition Elas_Isot_Behavior :: "Elas_Isot \<Rightarrow> int option \<Rightarrow> error + matrix \<times> matrix" where
  "Elas_Isot_Behavior s dim_arg =
     and_then (case dim_arg of
                 None \<Rightarrow> Inr (Elas_Isot_dim s)
               | Some d \<Rightarrow> and_then (py_assert (d = 2 \<or> d = 3) '''') (\<lambda>_. Inr d)) (\<lambda>dim'.
     and_then (get_mu s) (\<lambda>mu.
     and_then (get_lambda s) (\<lambda>l.
     and_then
       (if dim' = 2 then
          Inr [[l + 2 * mu, l, 0],
               [l, l + 2 * mu, 0],
               [0, 0, mu]]
        else if dim' = 3 then
          Inr [[l + 2 * mu, l, l, 0, 0, 0],
               [l, l + 2 * mu, l, 0, 0, 0],
               [l, l, l + 2 * mu, 0, 0, 0],
               [0, 0, 0, mu, 0, 0],
               [0, 0, 0, 0, mu, 0],
               [0, 0, 0, 0, 0, mu]]
        else Inl UnboundLocalError) (\<lambda>cVoigt.
       let c = KelvinMandel_Matrix dim' (Heterogeneous_Array cVoigt) in
       and_then (linalg_inv c) (\<lambda>s'. Inr (c, s'))))))"

definition Elas_Isot_Update :: "Elas_Isot \<Rightarrow> (error + unit) \<times> Elas_Isot" where
  "Elas_Isot_Update s =
     (case Elas_Isot_Behavior s (Some (Elas_dim s)) of
        Inl e \<Rightarrow> (Inl e, s)
      | Inr (C, S) \<Rightarrow>
          (case C_setter C s of
             (Inl e, s1) \<Rightarrow> (Inl e, s1)
           | (Inr _, s1) \<Rightarrow> S_setter S s1))"

text \<open>The properties \<open>C\<close> and \<open>S\<close>: update when stale, then return a copy of the cache.\<close>

definition Elas_Isot_refresh :: "Elas_Isot \<Rightarrow> (error + unit) \<times> Elas_Isot" where
  "Elas_Isot_refresh s =
     (if needUpdate s then
        (case Elas_Isot_Update s of
           (Inl e, s1) \<Rightarrow> (Inl e, s1)
         | (Inr _, s1) \<Rightarrow> (Inr (), Need_Update False s1))
      else (Inr (), s))"

definition Elas_Isot_C :: "Elas_Isot \<Rightarrow> (error + matrix) \<times> Elas_Isot" where
  "Elas_Isot_C s =
     (case Elas_Isot_refresh s of
        (Inl e, s1) \<Rightarrow> (Inl e, s1)
      | (Inr _, s1) \<Rightarrow>
          (case Elas_C s1 of None \<Rightarrow> (Inl AttributeError, s1) | Some C \<Rightarrow> (Inr C, s1)))"

definition Elas_Isot_S :: "Elas_Isot \<Rightarrow> (error + matrix) \<times> Elas_Isot" where
  "Elas_Isot_S s =
     (case Elas_Isot_refresh s of
        (Inl e, s1) \<Rightarrow> (Inl e, s1)
      | (Inr _, s1) \<Rightarrow>
          (case Elas_S s1 of None \<Rightarrow> (Inl AttributeError, s1) | Some S \<Rightarrow> (Inr S, s1)))"

text \<open>
  \<open>isHeterogeneous\<close> is \<open>len(self.C.shape) > 2\<close>: it reads \<open>C\<close>, and a matrix of this
  model has two dimensions.
\<close>

definition Elas_Isot_isHeterogeneous :: "Elas_Isot \<Rightarrow> (error + bool) \<times> Elas_Isot" where
  "Elas_Isot_isHeterogeneous s =
     (case Elas_Isot_C s of (Inl e, s1) \<Rightarrow> (Inl e, s1) | (Inr C, s1) \<Rightarrow> (Inr False, s1))"

definition Walpole_check :: "real \<Rightarrow> real \<Rightarrow> matrix \<Rightarrow> matrix \<Rightarrow> matrix \<Rightarrow> error + unit" where
  "Walpole_check c1 c2 E1 E2 C =
     and_then (np_add (scal (3 * c1) E1) (scal (2 * c2) E2)) (\<lambda>sum_ciEi.
     and_then (np_sub sum_ciEi C) (\<lambda>diff.
       py_assert (np_le (np_divide (linalg_norm diff) (linalg_norm C)) tol12) ''''))"

definition Elas_Isot_Walpole_Decomposition ::
    "Elas_Isot \<Rightarrow> (error + (real \<times> real) \<times> (matrix \<times> matrix)) \<times> Elas_Isot" where
  "Elas_Isot_Walpole_Decomposition s =
     (case get_bulk s of Inl e \<Rightarrow> (Inl e, s) | Inr c1 \<Rightarrow>
      case get_mu s of Inl e \<Rightarrow> (Inl e, s) | Inr c2 \<Rightarrow>
      let Ivect = [1, 1, 1, 0, 0, 0];
          Isym = eye 6;
          E1 = scal (1 / 3) (Tensor_Product Ivect Ivect) in
      case np_sub Isym E1 of Inl e \<Rightarrow> (Inl e, s) | Inr E2 \<Rightarrow>
      case Elas_Isot_isHeterogeneous s of (Inl e, s1) \<Rightarrow> (Inl e, s1) | (Inr het, s1) \<Rightarrow>
      if \<not> het then
        (case Elas_Isot_C s1 of (Inl e, s2) \<Rightarrow> (Inl e, s2) | (Inr C, s2) \<Rightarrow>
         case Walpole_check c1 c2 E1 E2 C of Inl e \<Rightarrow> (Inl e, s2) | Inr _ \<Rightarrow>
           (Inr ((c1, c2), (scal 3 E1, scal 2 E2)), s2))
      else (Inr ((c1, c2), (scal 3 E1, scal 2 E2)), s1))"

section \<open>Parameters that are floats or arrays\<close>

text \<open>
  A material parameter is a Python float or a numpy array of per-element values (one
  axis) or of per-point values (two axes: element, integration point). A matrix built
  from such parameters has the same leading axes: \<open>len(shape)\<close> is 2, 3 or 4.
\<close>

datatype 'a batch = Single 'a | PerElement "'a list" | PerPoint "'a list list"

type_synonym param = "real batch"
type_synonym ndarray = "matrix batch"

definition batch_ndim :: "'a batch \<Rightarrow> nat" where
  "batch_ndim b = (case b of Single _ \<Rightarrow> 0 | PerElement _ \<Rightarrow> 1 | PerPoint _ \<Rightarrow> 2)"

text \<open>\<open>len(M.shape)\<close> of an array of matrices.\<close>

definition len_shape :: "ndarray \<Rightarrow> nat" where
  "len_shape M = batch_ndim M + 2"

text \<open>The first exception of a sequence of computations, or all their results.\<close>

fun collect :: "(error + 'a) list \<Rightarrow> error + 'a list" where
  "collect [] = Inr []"
| "collect (x # xs) = and_then x (\<lambda>y. and_then (collect xs) (\<lambda>ys. Inr (y # ys)))"

definition batch_collect :: "('a \<Rightarrow> error + 'b) \<Rightarrow> 'a batch \<Rightarrow> error + 'b batch" where
  "batch_collect f b =
     (case b of
        Single x \<Rightarrow> and_then (f x) (\<lambda>y. Inr (Single y))
      | PerElement xs \<Rightarrow> and_then (collect (map f xs)) (\<lambda>ys. Inr (PerElement ys))
      | PerPoint xss \<Rightarrow>
          and_then (collect (map (\<lambda>xs. collect (map f xs)) xss)) (\<lambda>yss. Inr (PerPoint yss)))"

text \<open>
  numpy's broadcasting along one axis: the two sizes are equal, or one of them is 1 and
  that operand is repeated; otherwise \<open>ValueError\<close>.
\<close>

definition broadcast_list :: "('a \<Rightarrow> 'b \<Rightarrow> error + 'c) \<Rightarrow> 'a list \<Rightarrow> 'b list \<Rightarrow> error + 'c list" where
  "broadcast_list f xs ys =
     (if length xs = length ys then collect (map2 f xs ys)
      else if length xs = 1 then collect (map (f (hd xs)) ys)
      else if length ys = 1 then collect (map (\<lambda>x. f x (hd ys)) xs)
      else Inl ValueError)"

text \<open>
  An elementwise binary operation on two operands with broadcasting over their leading
  axes; numpy aligns the axes from the last one, so the single axis of a per-element
  operand meets the point axis of a per-point operand.
\<close>

fun np_elementwise :: "('a \<Rightarrow> 'b \<Rightarrow> error + 'c) \<Rightarrow> 'a batch \<Rightarrow> 'b batch \<Rightarrow> error + 'c batch" where
  "np_elementwise f (Single a) y = batch_collect (f a) y"
| "np_elementwise f (PerElement xs) (Single b) = batch_collect (\<lambda>x. f x b) (PerElement xs)"
| "np_elementwise f (PerPoint xss) (Single b) = batch_collect (\<lambda>x. f x b) (PerPoint xss)"
| "np_elementwise f (PerElement xs) (PerElement ys) =
     and_then (broadcast_list f xs ys) (\<lambda>zs. Inr (PerElement zs))"
| "np_elementwise f (PerElement xs) (PerPoint yss) =
     and_then (collect (map (broadcast_list f xs) yss)) (\<lambda>zss. Inr (PerPoint zss))"
| "np_elementwise f (PerPoint xss) (PerElement ys) =
     and_then (collect (map (\<lambda>xs. broadcast_list f xs ys) xss)) (\<lambda>zss. Inr (PerPoint zss))"
| "np_elementwise f (PerPoint xss) (PerPoint yss) =
     and_then (broadcast_list (broadcast_list f) xss yss) (\<lambda>zss. Inr (PerPoint zss))"

text \<open>
  The arithmetic of the parameters. Between two Python floats \<open>a / b\<close> raises
  \<open>ZeroDivisionError\<close> on a zero divisor; when an operand is an array numpy gives \<open>inf\<close> or
  \<open>nan\<close> there and goes on, which leaves the reals: the model stops at that point with
  \<open>NonFinite\<close>. An operation with a Python constant (\<open>2*x\<close>, \<open>1+x\<close>, \<open>1-x\<close>, \<open>-x\<close>, \<open>x**2\<close>)
  is \<open>map_batch\<close> of it.
\<close>

definition p_add :: "param \<Rightarrow> param \<Rightarrow> error + param" where
  "p_add = np_elementwise (\<lambda>a b. Inr (a + b))"

definition p_sub :: "param \<Rightarrow> param \<Rightarrow> error + param" where
  "p_sub = np_elementwise (\<lambda>a b. Inr (a - b))"

definition p_mul :: "param \<Rightarrow> param \<Rightarrow> error + param" where
  "p_mul = np_elementwise (\<lambda>a b. Inr (a * b))"

definition p_div :: "param \<Rightarrow> param \<Rightarrow> error + param" where
  "p_div x y =
     np_elementwise
       (\<lambda>a b. if b = 0
               then Inl (if batch_ndim x = 0 \<and> batch_ndim y = 0 then ZeroDivisionError
                         else NonFinite)
               else Inr (a / b)) x y"

text \<open>
  \<open>np.array(table, dtype=dtype)\<close> on a 6 by 6 table of entries, some of which are the
  integer 0: with \<open>dtype=float\<close> an entry that is an array raises \<open>ValueError\<close>; with
  \<open>dtype=object\<close> the table is kept as it is.
\<close>

definition np_array :: "bool \<Rightarrow> param list list \<Rightarrow> error + param list list" where
  "np_array dtype_object table =
     (if dtype_object \<or> list_all (list_all (\<lambda>e. batch_ndim e = 0)) table then Inr table
      else Inl ValueError)"

text \<open>
  Modelled from the spec: \<open>Heterogeneous_Array\<close> is missing; this is its action on a table
  with array entries. "Each parameter value may be a scalar or an array of
  per-point/per-element values [...]; all matrix operations must broadcast over a
  leading batch dimension when parameters are arrays": the entries that are arrays must
  have one shape, which becomes the leading axes of the result, and a float entry is
  repeated along them. A table of floats is the matrix itself.
\<close>

definition same_shape :: "'a batch \<Rightarrow> 'b batch \<Rightarrow> bool" where
  "same_shape a b =
     (case (a, b) of
        (Single _, Single _) \<Rightarrow> True
      | (PerElement xs, PerElement ys) \<Rightarrow> length xs = length ys
      | (PerPoint xss, PerPoint yss) \<Rightarrow> map length xss = map length yss
      | _ \<Rightarrow> False)"

definition entry_at :: "'a batch \<Rightarrow> nat \<Rightarrow> nat \<Rightarrow> 'a" where
  "entry_at e i j = (case e of Single x \<Rightarrow> x | PerElement xs \<Rightarrow> xs ! i | PerPoint xss \<Rightarrow> xss ! i ! j)"

definition Heterogeneous_Array_nd :: "param list list \<Rightarrow> error + ndarray" where
  "Heterogeneous_Array_nd table =
     (case filter (\<lambda>e. batch_ndim e \<noteq> 0) (concat table) of
        [] \<Rightarrow> Inr (Single (Heterogeneous_Array (map (map (\<lambda>e. entry_at e 0 0)) table)))
      | a # arrays \<Rightarrow>
          if list_all (same_shape a) arrays then
            Inr (case a of
                   Single _ \<Rightarrow> Single (map (map (\<lambda>e. entry_at e 0 0)) table)
                 | PerElement xs \<Rightarrow>
                     PerElement (map (\<lambda>i. map (map (\<lambda>e. entry_at e i 0)) table) [0..<length xs])
                 | PerPoint xss \<Rightarrow>
                     PerPoint (map (\<lambda>i. map (\<lambda>j. map (map (\<lambda>e. entry_at e i j)) table)
                                             [0..<length (xss ! i)])
                                   [0..<length xss]))
          else Inl ValueError)"

text \<open>
  \<open>np.linalg.inv\<close> on an array of matrices inverts each of them and raises when one of
  them has no inverse.
\<close>

definition nd_inv :: "ndarray \<Rightarrow> error + ndarray" where
  "nd_inv = batch_collect linalg_inv"

text \<open>
  \<open>np.max\<close> of an array of quotients (\<open>None\<close> is \<open>inf\<close> or \<open>nan\<close>); it raises \<open>ValueError\<close> on
  an array without entries.
\<close>

definition batch_entries :: "'a batch \<Rightarrow> 'a list" where
  "batch_entries b = (case b of Single x \<Rightarrow> [x] | PerElement xs \<Rightarrow> xs | PerPoint xss \<Rightarrow> concat xss)"

definition np_max :: "real option batch \<Rightarrow> error + real option" where
  "np_max b =
     (let es = batch_entries b in
      if es = [] then Inl ValueError
      else if None \<in> set es then Inr None
      else Inr (Some (Max (set (map the es)))))"

text \<open>
  The relative difference of two arrays of matrices in the Frobenius norm, taken over
  the last two axes, is below \<open>1e-12\<close> everywhere:
  \<open>assert np.max(np.linalg.norm(A - B, axis=(-2,-1))/np.linalg.norm(R, axis=(-2,-1))) < 1e-12\<close>.
\<close>

definition nd_assert_close :: "ndarray \<Rightarrow> ndarray \<Rightarrow> ndarray \<Rightarrow> error + unit" where
  "nd_assert_close A B R =
     and_then (np_elementwise np_sub A B) (\<lambda>diff.
     and_then (np_elementwise (\<lambda>a b. Inr (np_divide a b))
                 (map_batch linalg_norm diff) (map_batch linalg_norm R)) (\<lambda>quotient.
     and_then (np_max quotient) (\<lambda>m.
       py_assert (np_less m tol12) '''')))"

text \<open>
  Indexing with \<open>x = [0, 1, 5]\<close>. \<open>pick\<close> selects along the first axis of what it is given.
  The three expressions of the source select along the last two axes of an array with
  2, 3 and 4 axes; applied to an array with fewer axes they raise \<open>IndexError\<close> (too many
  indices), and applied to one with more axes they select along other axes.
\<close>

definition pick :: "nat list \<Rightarrow> 'a list \<Rightarrow> error + 'a list" where
  "pick x xs = (if list_all (\<lambda>i. i < length xs) x then Inr (map (\<lambda>i. xs ! i) x) else Inl IndexError)"

text \<open>\<open>g[x,:][:,x]\<close>\<close>

definition index_2 :: "nat list \<Rightarrow> ndarray \<Rightarrow> error + ndarray" where
  "index_2 x g =
     (case g of
        Single A \<Rightarrow> and_then (and_then (take_rows x A) (take_cols x)) (\<lambda>R. Inr (Single R))
      | PerElement As \<Rightarrow>
          and_then (pick x As) (\<lambda>Bs.
          and_then (collect (map (take_rows x) Bs)) (\<lambda>Rs. Inr (PerElement Rs)))
      | PerPoint Ass \<Rightarrow>
          and_then (pick x Ass) (\<lambda>Bss.
          and_then (collect (map (pick x) Bss)) (\<lambda>Rss. Inr (PerPoint Rss))))"

text \<open>\<open>g[:,x,:][:,:,x]\<close>\<close>

definition index_3 :: "nat list \<Rightarrow> ndarray \<Rightarrow> error + ndarray" where
  "index_3 x g =
     (case g of
        Single A \<Rightarrow> Inl IndexError
      | PerElement As \<Rightarrow>
          and_then (collect (map (take_rows x) As)) (\<lambda>Bs.
          and_then (collect (map (take_cols x) Bs)) (\<lambda>Rs. Inr (PerElement Rs)))
      | PerPoint Ass \<Rightarrow>
          and_then (collect (map (pick x) Ass)) (\<lambda>Bss.
          and_then (collect (map (\<lambda>Bs. collect (map (take_rows x) Bs)) Bss)) (\<lambda>Rss.
            Inr (PerPoint Rss))))"

text \<open>\<open>g[:,:,x,:][:,:,:,x]\<close>\<close>

definition index_4 :: "nat list \<Rightarrow> ndarray \<Rightarrow> error + ndarray" where
  "index_4 x g =
     (case g of
        Single A \<Rightarrow> Inl IndexError
      | PerElement As \<Rightarrow> Inl IndexError
      | PerPoint Ass \<Rightarrow>
          and_then (collect (map (\<lambda>As. collect (map (take_rows x) As)) Ass)) (\<lambda>Bss.
          and_then (collect (map (\<lambda>Bs. collect (map (take_cols x) Bs)) Bss)) (\<lambda>Rss.
            Inr (PerPoint Rss))))"

section \<open>Transversely isotropic law\<close>

text \<open>
  The attributes of an instance. Each of the five parameters is a float or an array
  (\<open>Union[float,np.ndarray]\<close>); \<open>'p\<close> is the type that holds one: \<open>real\<close> for an instance
  built from floats, \<open>param\<close> for an instance whose parameters may be arrays.
\<close>

record 'p Elas_IsotTrans = Elas +
  Elas_IsotTrans_dim :: int
  Elas_IsotTrans_El :: 'p
  Elas_IsotTrans_Et :: 'p
  Elas_IsotTrans_Gl :: 'p
  Elas_IsotTrans_vl :: 'p
  Elas_IsotTrans_vt :: 'p
  Elas_IsotTrans_axis_l :: vec
  Elas_IsotTrans_axis_t :: vec

text \<open>
  \<open>__init__\<close> with float parameters: the five parameter setters, the coercion of the two
  axes, the three assertions on them, their normalisation, then \<open>_Elas.__init__\<close>.
\<close>

definition Elas_IsotTrans_init ::
    "int \<Rightarrow> real \<Rightarrow> real \<Rightarrow> real \<Rightarrow> real \<Rightarrow> real \<Rightarrow> vec \<Rightarrow> vec \<Rightarrow> bool \<Rightarrow> real
      \<Rightarrow> error + real Elas_IsotTrans" where
  "Elas_IsotTrans_init dim' El Et Gl vl vt axis_l_arg axis_t_arg planeStress thickness =
     and_then (py_assert (dim' = 2 \<or> dim' = 3) ''Must be dimension 2 or 3'') (\<lambda>_.
     and_then (Test_Sup0 El) (\<lambda>_.
     and_then (Test_Sup0 Et) (\<lambda>_.
     and_then (Test_Sup0 Gl) (\<lambda>_.
     and_then (Test_In vl (- 1) 1) (\<lambda>_.
     and_then (Test_In vt (- 1) (1 / 2)) (\<lambda>_.
     let axis_l = As_Coordinates axis_l_arg;
         axis_t = As_Coordinates axis_t_arg in
     and_then (py_assert (length axis_l = 3) ''axis_l must be a 3D vector'') (\<lambda>_.
     and_then (py_assert (length axis_t = 3) ''axis_t must be a 3D vector'') (\<lambda>_.
     and_then (py_assert (dot axis_l axis_t \<le> tol12)
                 ''axis1 and axis2 must be perpendicular'') (\<lambda>_.
     and_then (Normalize_vect axis_l) (\<lambda>nl.
     and_then (Normalize_vect axis_t) (\<lambda>nt.
     and_then (if dim' = 2 then py_assert (thickness > 0) ''Must be greater than 0''
               else Inr ()) (\<lambda>_.
       Inr \<lparr>needUpdate = True,
            Elas_dim = dim',
            Elas_thickness = (if dim' = 2 then Some thickness else None),
            Elas_planeStress = (if dim' = 2 then planeStress else False),
            Elas_C = None, Elas_S = None,
            Elas_IsotTrans_dim = dim',
            Elas_IsotTrans_El = El, Elas_IsotTrans_Et = Et, Elas_IsotTrans_Gl = Gl,
            Elas_IsotTrans_vl = vl, Elas_IsotTrans_vt = vt,
            Elas_IsotTrans_axis_l = nl, Elas_IsotTrans_axis_t = nt\<rparr>))))))))))))"

text \<open>The properties \<open>Gt\<close> and \<open>kt\<close>, in the order in which Python evaluates them.\<close>

definition Gt :: "param Elas_IsotTrans \<Rightarrow> error + param" where
  "Gt s =
     (let Et = Elas_IsotTrans_Et s; vt = Elas_IsotTrans_vt s in
      p_div Et (map_batch (\<lambda>x. 2 * x) (map_batch (\<lambda>x. 1 + x) vt)))"

definition kt :: "param Elas_IsotTrans \<Rightarrow> error + param" where
  "kt s =
     (let El = Elas_IsotTrans_El s; Et = Elas_IsotTrans_Et s;
          vtt = Elas_IsotTrans_vt s; vtl = Elas_IsotTrans_vl s in
      and_then (p_mul El Et) (\<lambda>num.
      and_then (p_mul (map_batch (\<lambda>x. 2 * x) (map_batch (\<lambda>x. 1 - x) vtt)) El) (\<lambda>a.
      and_then (p_mul (map_batch (\<lambda>x. 4 * x) (map_batch (\<lambda>x. x\<^sup>2) vtl)) Et) (\<lambda>b.
      and_then (p_sub a b) (\<lambda>den.
        p_div num den)))))"

definition useSameAxis :: "'p Elas_IsotTrans \<Rightarrow> error + bool" where
  "useSameAxis s =
     and_then (np_sub1 (Elas_IsotTrans_axis_l s) [1, 0, 0]) (\<lambda>dl.
     and_then (np_sub1 (Elas_IsotTrans_axis_t s) [0, 1, 0]) (\<lambda>dt.
       Inr (linalg_norm1 dl \<le> tol12 \<and> linalg_norm1 dt \<le> tol12)))"

text \<open>
  The compliance and the stiffness in the material basis: the entries of the table are
  evaluated row by row, the table becomes an array of the \<open>dtype\<close> that \<open>kt\<close> decides, and
  \<open>Heterogeneous_Array\<close> moves the axes of the parameters in front.
\<close>

definition material_sM :: "param Elas_IsotTrans \<Rightarrow> param \<Rightarrow> param \<Rightarrow> error + ndarray" where
  "material_sM s Gt_val kt_val =
     (let El = Elas_IsotTrans_El s; Et = Elas_IsotTrans_Et s; vt = Elas_IsotTrans_vt s;
          vl = Elas_IsotTrans_vl s; Gl = Elas_IsotTrans_Gl s;
          zero = Inr (Single 0); one = Single 1 in
      and_then (collect (map collect
        [[p_div one El, p_div (map_batch uminus vl) El, p_div (map_batch uminus vl) El,
            zero, zero, zero],
         [p_div (map_batch uminus vl) El, p_div one Et, p_div (map_batch uminus vt) Et,
            zero, zero, zero],
         [p_div (map_batch uminus vl) El, p_div (map_batch uminus vt) Et, p_div one Et,
            zero, zero, zero],
         [zero, zero, zero, p_div one (map_batch (\<lambda>x. 2 * x) Gt_val), zero, zero],
         [zero, zero, zero, zero, p_div one (map_batch (\<lambda>x. 2 * x) Gl), zero],
         [zero, zero, zero, zero, zero, p_div one (map_batch (\<lambda>x. 2 * x) Gl)]])) (\<lambda>table.
      and_then (np_array (batch_ndim kt_val \<noteq> 0) table) Heterogeneous_Array_nd))"

definition material_cM :: "param Elas_IsotTrans \<Rightarrow> param \<Rightarrow> param \<Rightarrow> error + ndarray" where
  "material_cM s Gt_val kt_val =
     (let El = Elas_IsotTrans_El s; vl = Elas_IsotTrans_vl s; Gl = Elas_IsotTrans_Gl s;
          zero = Inr (Single 0);
          two_kt_vl = p_mul (map_batch (\<lambda>x. 2 * x) kt_val) vl in
      and_then (collect (map collect
        [[and_then (p_mul (map_batch (\<lambda>x. 4 * x) (map_batch (\<lambda>x. x\<^sup>2) vl)) kt_val) (p_add El),
            two_kt_vl, two_kt_vl, zero, zero, zero],
         [two_kt_vl, p_add kt_val Gt_val, p_sub kt_val Gt_val, zero, zero, zero],
         [two_kt_vl, p_sub kt_val Gt_val, p_add kt_val Gt_val, zero, zero, zero],
         [zero, zero, zero, Inr (map_batch (\<lambda>x. 2 * x) Gt_val), zero, zero],
         [zero, zero, zero, zero, Inr (map_batch (\<lambda>x. 2 * x) Gl), zero],
         [zero, zero, zero, zero, zero, Inr (map_batch (\<lambda>x. 2 * x) Gl)]])) (\<lambda>table.
      and_then (np_array (batch_ndim kt_val \<noteq> 0) table) Heterogeneous_Array_nd))"

text \<open>
  \<open>_Behavior(dim, P)\<close>. The base change is an operator of the module \<open>_utils\<close>, which
  the specification describes as an external primitive without giving its formula; the
  model takes \<open>Get_Pmat\<close> and \<open>Apply_Pmat\<close> as parameters, each of which may raise.
\<close>

definition Elas_IsotTrans_Behavior ::
    "(vec \<Rightarrow> vec \<Rightarrow> error + matrix) \<Rightarrow> (matrix \<Rightarrow> ndarray \<Rightarrow> error + ndarray)
      \<Rightarrow> param Elas_IsotTrans \<Rightarrow> int option \<Rightarrow> matrix option \<Rightarrow> error + ndarray \<times> ndarray" where
  "Elas_IsotTrans_Behavior Get_Pmat Apply_Pmat s dim_arg P_arg =
     (let dim' = (case dim_arg of None \<Rightarrow> Elas_IsotTrans_dim s | Some d \<Rightarrow> d) in
      and_then (case P_arg of
                  Some P \<Rightarrow> Inr P
                | None \<Rightarrow> Get_Pmat (Elas_IsotTrans_axis_l s) (Elas_IsotTrans_axis_t s)) (\<lambda>P.
      and_then (useSameAxis s) (\<lambda>sameAxis.
      and_then (Gt s) (\<lambda>Gt_val.
      and_then (kt s) (\<lambda>kt_val.
      and_then (material_sM s Gt_val kt_val) (\<lambda>sM.
      and_then (material_cM s Gt_val kt_val) (\<lambda>cM.
      and_then (if len_shape cM = 2 then
                  and_then (nd_inv cM) (\<lambda>inv_cM.
                  and_then (nd_assert_close sM inv_cM sM) (\<lambda>_.
                  and_then (nd_inv sM) (\<lambda>inv_sM.
                    nd_assert_close cM inv_sM cM)))
                else Inr ()) (\<lambda>_.
      and_then (Apply_Pmat P sM) (\<lambda>global_sM.
      and_then (Apply_Pmat P cM) (\<lambda>global_cM.
      and_then (if sameAxis then
                  and_then (nd_assert_close global_cM cM cM) (\<lambda>_.
                    nd_assert_close global_sM sM sM)
                else Inr ()) (\<lambda>_.
      if dim' = 2 then
        (let x = [0, 1, 5];
             shape = len_shape global_cM in
         if Elas_planeStress s = True then
           and_then (if shape = 2 then index_2 x global_sM
                     else if shape = 3 then index_3 x global_sM
                     else if shape = 4 then index_4 x global_sM
                     else Inr global_sM) (\<lambda>s'.
           and_then (nd_inv s') (\<lambda>c. Inr (c, s')))
         else
           and_then (if shape = 2 then index_2 x global_cM
                     else if shape = 3 then index_3 x global_cM
                     else if shape = 4 then index_4 x global_cM
                     else Inr global_cM) (\<lambda>c.
           and_then (nd_inv c) (\<lambda>s'. Inr (c, s'))))
      else Inr (global_cM, global_sM))))))))))))"

text \<open>
  The reduction the specification describes for dimension 2: the entries of a 6 by 6
  matrix at the rows and columns 0, 1 and 5.
\<close>

definition restrict_015 :: "matrix \<Rightarrow> matrix" where
  "restrict_015 M =
     [[M ! 0 ! 0, M ! 0 ! 1, M ! 0 ! 5],
      [M ! 1 ! 0, M ! 1 ! 1, M ! 1 ! 5],
      [M ! 5 ! 0, M ! 5 ! 1, M ! 5 ! 5]]"




section \<open>Matrices of isotropic form\<close>

text \<open>
  The shape of an isotropic stiffness or compliance: \<open>a\<close> on the normal diagonal, \<open>l\<close>
  between two normal components, \<open>m\<close> on the shear diagonal.
\<close>

definition iso3 :: "real \<Rightarrow> real \<Rightarrow> real \<Rightarrow> matrix" where
  "iso3 a l m =
     [[a, l, l, 0, 0, 0],
      [l, a, l, 0, 0, 0],
      [l, l, a, 0, 0, 0],
      [0, 0, 0, m, 0, 0],
      [0, 0, 0, 0, m, 0],
      [0, 0, 0, 0, 0, m]]"

definition iso2 :: "real \<Rightarrow> real \<Rightarrow> real \<Rightarrow> matrix" where
  "iso2 a l m =
     [[a, l, 0],
      [l, a, 0],
      [0, 0, m]]"

section \<open>Instances of the concrete scenarios\<close>

text \<open>
  The instances that \<open>Elas_Isot(3, E=210000, v=0.3)\<close> and
  \<open>Elas_Isot(2, E=210000, v=0.3, planeStress=True, thickness=1.0)\<close> construct
  (lemma \<open>scenario_init\<close>).
\<close>

definition scenario_3D :: Elas_Isot where
  "scenario_3D =
     \<lparr>needUpdate = True, Elas_dim = 3, Elas_thickness = None, Elas_planeStress = False,
      Elas_C = None, Elas_S = None,
      Elas_Isot_dim = 3, Elas_Isot_E = 210000, Elas_Isot_v = 3 / 10\<rparr>"

definition scenario_2D :: Elas_Isot where
  "scenario_2D =
     \<lparr>needUpdate = True, Elas_dim = 2, Elas_thickness = Some 1, Elas_planeStress = True,
      Elas_C = None, Elas_S = None,
      Elas_Isot_dim = 2, Elas_Isot_E = 210000, Elas_Isot_v = 3 / 10\<rparr>"

section \<open>A transversely isotropic instance for the closed checks\<close>


definition sample_sM :: matrix where
  "sample_sM = [[1 / 2, - 1 / 4, - 1 / 4, 0, 0, 0],
           [- 1 / 4, 1, 0, 0, 0, 0],
           [- 1 / 4, 0, 1, 0, 0, 0],
           [0, 0, 0, 1, 0, 0],
           [0, 0, 0, 0, 1 / 2, 0],
           [0, 0, 0, 0, 0, 1 / 2]]"

definition sample_cM :: matrix where
  "sample_cM = [[8 / 3, 2 / 3, 2 / 3, 0, 0, 0],
           [2 / 3, 7 / 6, 1 / 6, 0, 0, 0],
           [2 / 3, 1 / 6, 7 / 6, 0, 0, 0],
           [0, 0, 0, 1, 0, 0],
           [0, 0, 0, 0, 2, 0],
           [0, 0, 0, 0, 0, 2]]"



definition sample_C_strain :: matrix where
  "sample_C_strain = [[8 / 3, 2 / 3, 0], [2 / 3, 7 / 6, 0], [0, 0, 2]]"

definition sample_S_strain :: matrix where
  "sample_S_strain = [[7 / 16, - 1 / 4, 0], [- 1 / 4, 1, 0], [0, 0, 1 / 2]]"

text \<open>
  A two-dimensional instance whose parameters are arrays over two elements, \<open>vt\<close> being
  a float: the first element has the parameters of the instance above, the second is
  isotropic with \<open>E = 1\<close> and \<open>v = 0\<close>, where compliance and stiffness are the identity.
\<close>

definition sample_array :: "bool \<Rightarrow> param Elas_IsotTrans" where
  "sample_array ps = \<lparr>needUpdate = True, Elas_dim = 2, Elas_thickness = Some 1, Elas_planeStress = ps,
          Elas_C = None, Elas_S = None, Elas_IsotTrans_dim = 2,
          Elas_IsotTrans_El = PerElement [2, 1], Elas_IsotTrans_Et = PerElement [1, 1],
          Elas_IsotTrans_Gl = PerElement [1, 1 / 2],
          Elas_IsotTrans_vl = PerElement [1 / 2, 0], Elas_IsotTrans_vt = Single 0,
          Elas_IsotTrans_axis_l = [1, 0, 0],
          Elas_IsotTrans_axis_t = [0, 1, 0]\<rparr>"

section \<open>The isotropic law in binary64\<close>

text \<open>
  A Python float is an IEEE 754 binary64 number. The definitions above compute in the
  reals; the ones of this section round as the machine does, to settle what the
  tolerances of the specification mean for the program. A finite float is the real it
  stands for (the two zeros are not told apart: no operation below depends on the sign
  of a zero, since Python raises on a zero divisor).
\<close>

datatype f64 = Finite real | PosInf | NegInf | NaN

text \<open>
  Rounding to nearest, ties to even: a real \<open>x\<close> lies between two neighbours on the grid of
  spacing \<open>ulp x\<close>, which is \<open>2^(e - 52)\<close> for \<open>2^e <= |x| < 2^(e+1)\<close> and \<open>2^(-1074)\<close> below
  \<open>2^(-1022)\<close>; a result of magnitude \<open>2^1024\<close> overflows to an infinity.
\<close>

definition round_half_even :: "real \<Rightarrow> int" where
  "round_half_even q =
     (if q - of_int \<lfloor>q\<rfloor> < 1 / 2 then \<lfloor>q\<rfloor>
      else if q - of_int \<lfloor>q\<rfloor> > 1 / 2 then \<lfloor>q\<rfloor> + 1
      else if even \<lfloor>q\<rfloor> then \<lfloor>q\<rfloor> else \<lfloor>q\<rfloor> + 1)"

definition ulp :: "real \<Rightarrow> real" where
  "ulp x = 2 powr (of_int (max \<lfloor>log 2 \<bar>x\<bar>\<rfloor> (- 1022)) - 52)"

definition rne :: "real \<Rightarrow> real" where
  "rne x = (if x = 0 then 0 else of_int (round_half_even (x / ulp x)) * ulp x)"

definition round64 :: "real \<Rightarrow> f64" where
  "round64 x =
     (if 2 ^ 1024 \<le> rne x then PosInf
      else if rne x \<le> - (2 ^ 1024) then NegInf
      else Finite (rne x))"

text \<open>The arithmetic of floats: \<open>a + b\<close>, \<open>-a\<close>, \<open>a - b\<close>, \<open>a * b\<close>.\<close>

fun fadd :: "f64 \<Rightarrow> f64 \<Rightarrow> f64" where
  "fadd (Finite x) (Finite y) = round64 (x + y)"
| "fadd NaN _ = NaN"
| "fadd _ NaN = NaN"
| "fadd PosInf NegInf = NaN"
| "fadd NegInf PosInf = NaN"
| "fadd PosInf _ = PosInf"
| "fadd _ PosInf = PosInf"
| "fadd NegInf _ = NegInf"
| "fadd _ NegInf = NegInf"

fun fneg :: "f64 \<Rightarrow> f64" where
  "fneg (Finite x) = Finite (- x)"
| "fneg PosInf = NegInf"
| "fneg NegInf = PosInf"
| "fneg NaN = NaN"

definition fsub :: "f64 \<Rightarrow> f64 \<Rightarrow> f64" where
  "fsub a b = fadd a (fneg b)"

text \<open>The sign of an infinite product or quotient: that of \<open>PosInf\<close> for a positive \<open>x\<close>.\<close>

definition signed_inf :: "real \<Rightarrow> f64" where
  "signed_inf x = (if x = 0 then NaN else if 0 < x then PosInf else NegInf)"

fun fmul :: "f64 \<Rightarrow> f64 \<Rightarrow> f64" where
  "fmul (Finite x) (Finite y) = round64 (x * y)"
| "fmul NaN _ = NaN"
| "fmul _ NaN = NaN"
| "fmul (Finite x) PosInf = signed_inf x"
| "fmul (Finite x) NegInf = signed_inf (- x)"
| "fmul PosInf (Finite y) = signed_inf y"
| "fmul NegInf (Finite y) = signed_inf (- y)"
| "fmul PosInf PosInf = PosInf"
| "fmul NegInf NegInf = PosInf"
| "fmul PosInf NegInf = NegInf"
| "fmul NegInf PosInf = NegInf"

text \<open>
  Python's \<open>a / b\<close> on two floats raises \<open>ZeroDivisionError\<close> on a zero divisor and
  otherwise divides as the machine does (an overflow gives an infinity, no exception).
\<close>

fun float_div :: "f64 \<Rightarrow> f64 \<Rightarrow> error + f64" where
  "float_div a (Finite y) =
     (if y = 0 then Inl ZeroDivisionError
      else Inr (case a of
                  Finite x \<Rightarrow> round64 (x / y)
                | PosInf \<Rightarrow> signed_inf y
                | NegInf \<Rightarrow> signed_inf (- y)
                | NaN \<Rightarrow> NaN))"
| "float_div a NaN = Inr NaN"
| "float_div (Finite x) b = Inr (Finite 0)"
| "float_div a b = Inr NaN"

text \<open>
  Python's \<open>a ** 2\<close> on a float: the square, rounded (the power function of the C
  library, taken as correctly rounded here); an overflow raises \<open>OverflowError\<close>.
\<close>

definition float_pow2 :: "f64 \<Rightarrow> error + f64" where
  "float_pow2 a =
     (case a of
        Finite x \<Rightarrow> (case round64 (x * x) of Finite r \<Rightarrow> Inr (Finite r) | _ \<Rightarrow> Inl OverflowError)
      | PosInf \<Rightarrow> Inr PosInf
      | NegInf \<Rightarrow> Inr PosInf
      | NaN \<Rightarrow> Inr NaN)"

text \<open>
  \<open>get_mu\<close>, \<open>get_lambda\<close> and \<open>_Behavior\<close> of the isotropic law on float parameters, operation
  by operation in Python's order of evaluation. The attributes \<open>E\<close> and \<open>v\<close> of the
  instance are floats, the integer constants convert exactly.
\<close>

definition get_mu_binary64 :: "Elas_Isot \<Rightarrow> error + f64" where
  "get_mu_binary64 s =
     (let E = Finite (Elas_Isot_E s); v = Finite (Elas_Isot_v s) in
      float_div E (fmul (Finite 2) (fadd (Finite 1) v)))"

definition get_lambda_binary64 :: "Elas_Isot \<Rightarrow> error + f64" where
  "get_lambda_binary64 s =
     (let E = Finite (Elas_Isot_E s); v = Finite (Elas_Isot_v s) in
      and_then (float_div (fmul E v)
                  (fmul (fadd (Finite 1) v) (fsub (Finite 1) (fmul (Finite 2) v)))) (\<lambda>l.
        if Elas_Isot_dim s = 2 \<and> Elas_planeStress s then
          and_then (float_pow2 v) (\<lambda>v2. float_div (fmul E v) (fsub (Finite 1) v2))
        else Inr l))"

text \<open>
  Modelled from the spec: \<open>KelvinMandel_Matrix\<close> is missing; this is the definition above
  on floats, with \<open>np.sqrt(2)\<close> rounded and each product rounded.
\<close>

definition KelvinMandel_coef_binary64 :: "int \<Rightarrow> f64 list" where
  "KelvinMandel_coef_binary64 dim' =
     (let one = Finite 1; r2 = round64 (sqrt 2) in
      if dim' = 2 then [one, one, r2] else [one, one, one, r2, r2, r2])"

definition KelvinMandel_Matrix_binary64 :: "int \<Rightarrow> f64 list list \<Rightarrow> f64 list list" where
  "KelvinMandel_Matrix_binary64 dim' M =
     map2 (\<lambda>ci row. map2 (\<lambda>cj x. fmul (fmul ci cj) x) (KelvinMandel_coef_binary64 dim') row)
          (KelvinMandel_coef_binary64 dim') M"

text \<open>
  \<open>_Behavior\<close>. \<open>np.linalg.inv\<close> is the routine of the numerical library, which no formula
  of the source or of the specification fixes on floats: it is the parameter \<open>np_inv\<close>.
\<close>

definition Elas_Isot_Behavior_binary64 ::
    "(f64 list list \<Rightarrow> error + f64 list list) \<Rightarrow> Elas_Isot \<Rightarrow> int option
      \<Rightarrow> error + f64 list list \<times> f64 list list" where
  "Elas_Isot_Behavior_binary64 np_inv s dim_arg =
     and_then (case dim_arg of
                 None \<Rightarrow> Inr (Elas_Isot_dim s)
               | Some d \<Rightarrow> and_then (py_assert (d = 2 \<or> d = 3) '''') (\<lambda>_. Inr d)) (\<lambda>dim'.
     and_then (get_mu_binary64 s) (\<lambda>mu.
     and_then (get_lambda_binary64 s) (\<lambda>l.
     let zero = Finite 0; two_mu = fmul (Finite 2) mu in
     and_then
       (if dim' = 2 then
          Inr [[fadd l two_mu, l, zero],
               [l, fadd l two_mu, zero],
               [zero, zero, mu]]
        else if dim' = 3 then
          Inr [[fadd l two_mu, l, l, zero, zero, zero],
               [l, fadd l two_mu, l, zero, zero, zero],
               [l, l, fadd l two_mu, zero, zero, zero],
               [zero, zero, zero, mu, zero, zero],
               [zero, zero, zero, zero, mu, zero],
               [zero, zero, zero, zero, zero, mu]]
        else Inl UnboundLocalError) (\<lambda>cVoigt.
       let c = KelvinMandel_Matrix_binary64 dim' cVoigt in
       and_then (np_inv c) (\<lambda>s'. Inr (c, s'))))))"

text \<open>
  \<open>S @ C\<close> on two float matrices: the columns of the first must be as many as the rows of
  the second; an entry is the sum of the products, added from the left.
\<close>

definition matmul_binary64 :: "f64 list list \<Rightarrow> f64 list list \<Rightarrow> error + f64 list list" where
  "matmul_binary64 A B =
     (if list_all (\<lambda>row. length row = length B) A then
        Inr (map (\<lambda>row. map (\<lambda>j. foldl fadd (Finite 0) (map2 (\<lambda>a brow. fmul a (brow ! j)) row B))
                            [0..<(case B of [] \<Rightarrow> 0 | brow # _ \<Rightarrow> length brow)]) A)
      else Inl ValueError)"

text \<open>
  The test of the specification, "\<open>S @ C == Identity\<close> within 1e-10", on a float matrix:
  it has \<open>n\<close> rows of \<open>n\<close> entries, each of them a number that differs from the entry of the
  identity by at most the tolerance.
\<close>

definition identity_within :: "real \<Rightarrow> nat \<Rightarrow> f64 list list \<Rightarrow> bool" where
  "identity_within tol n M \<longleftrightarrow>
     length M = n \<and>
     list_all (\<lambda>i. length (M ! i) = n \<and>
       list_all (\<lambda>j. case M ! i ! j of
                        Finite x \<Rightarrow> \<bar>x - (if i = j then 1 else 0)\<bar> \<le> tol
                      | _ \<Rightarrow> False) [0..<n]) [0..<n]"

text \<open>
  The instance \<open>Elas_Isot(3, E=1e308, v=0.49)\<close>: the two literals are the floats nearest to
  \<open>10^308\<close> and to \<open>49/100\<close>.
\<close>

definition extreme_3D :: Elas_Isot where
  "extreme_3D =
     \<lparr>needUpdate = True, Elas_dim = 3, Elas_thickness = None, Elas_planeStress = False,
      Elas_C = None, Elas_S = None,
      Elas_Isot_dim = 3, Elas_Isot_E = rne (10 ^ 308), Elas_Isot_v = rne (49 / 100)\<rparr>"

section \<open>Properties of the prism shape functions\<close>

lemma PRISM6_dN_derivative:
  assumes "i < 6" and "k < 3"
  shows "(along k (PRISM6_N ! i ! 0) r s t has_real_derivative (PRISM6_dN ! i ! k) r s t)
           (at (coord k r s t))"
proof -
  have "i \<in> set [0..<6]" and "k \<in> set [0..<3]"
    using assms by simp_all
  then show ?thesis
    apply (simp add: upt_rec)
    apply (elim disjE)
    apply (simp_all add: along_def coord_def PRISM6_N_def PRISM6_dN_def)
    apply (auto intro!: derivative_eq_intros simp: field_simps)
    done
qed

lemma PRISM15_dN_derivative:
  assumes "i < 15" and "k < 3"
  shows "(along k (PRISM15_N ! i ! 0) r s t has_real_derivative (PRISM15_dN ! i ! k) r s t)
           (at (coord k r s t))"
proof -
  have "i \<in> set [0..<15]" and "k \<in> set [0..<3]"
    using assms by simp_all
  then show ?thesis
    apply (simp add: upt_rec)
    apply (elim disjE)
    apply (simp_all add: along_def coord_def PRISM15_N_def PRISM15_dN_def)
    apply (auto intro!: derivative_eq_intros simp: field_simps)
    done
qed

text \<open>
  Claim C1. At every reference point \<open>(r, s, t)\<close>, for every node \<open>i\<close> and coordinate
  \<open>k\<close> (order \<open>r, s, t\<close>), entry \<open>(i, k)\<close> of the table returned by \<open>_dN\<close> is the
  derivative of the \<open>i\<close>-th polynomial of \<open>_N\<close> in its \<open>k\<close>-th argument, the other two
  held fixed: for the 6 nodes of PRISM6 and for the 15 nodes of PRISM15.
\<close>

theorem dN_is_partial_derivative_of_N:
  "(\<forall>i<6. \<forall>k<3.
      (along k (PRISM6_N ! i ! 0) r s t has_real_derivative (PRISM6_dN ! i ! k) r s t)
        (at (coord k r s t))) \<and>
   (\<forall>i<15. \<forall>k<3.
      (along k (PRISM15_N ! i ! 0) r s t has_real_derivative (PRISM15_dN ! i ! k) r s t)
        (at (coord k r s t)))"
  using PRISM6_dN_derivative PRISM15_dN_derivative by blast

theorem dN_is_partial_derivative_of_N_witness:
  "((\<lambda>x. (x - 1) * (1 / 4 + 1 / 4 - 1) / 2) has_real_derivative 1 / 4 / 2 + 1 / 4 / 2 - 1 / 2)
      (at (1 / 2)) \<and>
   ((\<lambda>x. 2 * x * (1 / 4) * (1 / 2 + 1)) has_real_derivative 2 * (1 / 4) * (1 / 2 + 1))
      (at (1 / 4))"
proof -
  have six: "(2::nat) < 3 \<and> (0::nat) < 6" and fifteen: "(0::nat) < 3 \<and> (14::nat) < 15"
    by simp_all
  have a: "(along 2 (PRISM6_N ! 0 ! 0) (1 / 4) (1 / 4) (1 / 2) has_real_derivative
              (PRISM6_dN ! 0 ! 2) (1 / 4) (1 / 4) (1 / 2)) (at (coord 2 (1 / 4) (1 / 4) (1 / 2)))"
    using dN_is_partial_derivative_of_N [of "1 / 4" "1 / 4" "1 / 2"] six by blast
  have b: "(along 0 (PRISM15_N ! 14 ! 0) (1 / 4) (1 / 4) (1 / 2) has_real_derivative
              (PRISM15_dN ! 14 ! 0) (1 / 4) (1 / 4) (1 / 2)) (at (coord 0 (1 / 4) (1 / 4) (1 / 2)))"
    using dN_is_partial_derivative_of_N [of "1 / 4" "1 / 4" "1 / 2"] fifteen by blast
  from a b show ?thesis
    by (simp add: along_def coord_def PRISM6_N_def PRISM6_dN_def PRISM15_N_def PRISM15_dN_def)
qed

text \<open>
  Claim C8. Partition of unity: at every reference point the six values of
  \<open>PRISM6._N\<close> sum to 1, and so do the fifteen values of \<open>PRISM15._N\<close>.
\<close>

theorem N_partition_of_unity:
  "sum_list (eval_N PRISM6_N r s t) = 1 \<and> sum_list (eval_N PRISM15_N r s t) = 1"
  by (simp add: eval_N_def PRISM6_N_def PRISM15_N_def field_simps)

text \<open>
  Claim C9. At the reference coordinate of node 0, \<open>(r, s, t) = (0, 0, -1)\<close>, the six
  shape functions of PRISM6 take the values \<open>[1, 0, 0, 0, 0, 0]\<close>.
\<close>

theorem PRISM6_N_at_node_0:
  "eval_N PRISM6_N 0 0 (- 1) = [1, 0, 0, 0, 0, 0]"
  by (simp add: eval_N_def PRISM6_N_def)

section \<open>Matrices: products and inverses\<close>

lemma is_mat_nth: "is_mat n m A \<Longrightarrow> i < n \<Longrightarrow> length (A ! i) = m"
  by (auto simp: is_mat_def list_all_length)


lemma is_mat_shape: "is_mat n m A \<Longrightarrow> 0 < n \<Longrightarrow> np_shape A = (n, m)"
  by (cases A) (auto simp: is_mat_def np_shape_def)

lemma mat_eqI:
  assumes "is_mat n m A" "is_mat n m B" "\<And>i j. i < n \<Longrightarrow> j < m \<Longrightarrow> A ! i ! j = B ! i ! j"
  shows "A = B"
proof (rule nth_equalityI)
  show "length A = length B" using assms by (simp add: is_mat_def)
next
  fix i assume i: "i < length A"
  then have "i < n" using assms(1) by (simp add: is_mat_def)
  then show "A ! i = B ! i"
    using assms by (intro nth_equalityI) (auto simp: is_mat_nth)
qed

lemma is_mat_eye: "is_mat n n (eye n)"
  by (simp add: is_mat_def eye_def list_all_length)

lemma nth_eye: "i < n \<Longrightarrow> j < n \<Longrightarrow> eye n ! i ! j = (if i = j then 1 else 0)"
  by (simp add: eye_def)

lemma is_mat_mat_mul:
  assumes "is_mat n k A" "is_mat k m B" "0 < k"
  shows "is_mat n m (mat_mul A B)"
  using assms is_mat_shape[OF assms(2,3)]
  by (simp add: is_mat_def mat_mul_def list_all_length)

lemma nth_mat_mul:
  assumes "is_mat n k A" "is_mat k m B" "0 < k" "i < n" "j < m"
  shows "mat_mul A B ! i ! j = (\<Sum>l<k. A ! i ! l * B ! l ! j)"
  using assms is_mat_shape[OF assms(2,3)]
  by (simp add: mat_mul_def is_mat_def interv_sum_list_conv_sum_set_nat atLeast0LessThan)

lemma mat_mul_eye_right:
  assumes "is_mat n n A" "0 < n"
  shows "mat_mul A (eye n) = A"
proof (rule mat_eqI[of n n])
  show "is_mat n n (mat_mul A (eye n))" by (rule is_mat_mat_mul[OF assms(1) is_mat_eye assms(2)])
  show "is_mat n n A" by fact
  fix i j assume ij: "i < n" "j < n"
  have "mat_mul A (eye n) ! i ! j = (\<Sum>l<n. A ! i ! l * eye n ! l ! j)"
    by (rule nth_mat_mul[OF assms(1) is_mat_eye assms(2) ij])
  also have "\<dots> = (\<Sum>l<n. if l = j then A ! i ! l else 0)"
    by (rule sum.cong) (auto simp: nth_eye ij)
  also have "\<dots> = A ! i ! j" using ij by simp
  finally show "mat_mul A (eye n) ! i ! j = A ! i ! j" .
qed

lemma mat_mul_eye_left:
  assumes "is_mat n n A" "0 < n"
  shows "mat_mul (eye n) A = A"
proof (rule mat_eqI[of n n])
  show "is_mat n n (mat_mul (eye n) A)" by (rule is_mat_mat_mul[OF is_mat_eye assms])
  show "is_mat n n A" by fact
  fix i j assume ij: "i < n" "j < n"
  have "mat_mul (eye n) A ! i ! j = (\<Sum>l<n. eye n ! i ! l * A ! l ! j)"
    by (rule nth_mat_mul[OF is_mat_eye assms ij])
  also have "\<dots> = (\<Sum>l<n. if l = i then A ! l ! j else 0)"
    by (rule sum.cong) (auto simp: nth_eye ij)
  also have "\<dots> = A ! i ! j" using ij by simp
  finally show "mat_mul (eye n) A ! i ! j = A ! i ! j" .
qed

lemma mat_mul_assoc:
  assumes A: "is_mat n n A" and B: "is_mat n n B" and C: "is_mat n n C" and n: "0 < n"
  shows "mat_mul (mat_mul A B) C = mat_mul A (mat_mul B C)"
proof (rule mat_eqI[of n n])
  have AB: "is_mat n n (mat_mul A B)" using A B n by (rule is_mat_mat_mul)
  have BC: "is_mat n n (mat_mul B C)" using B C n by (rule is_mat_mat_mul)
  show "is_mat n n (mat_mul (mat_mul A B) C)" using AB C n by (rule is_mat_mat_mul)
  show "is_mat n n (mat_mul A (mat_mul B C))" using A BC n by (rule is_mat_mat_mul)
  fix i j assume ij: "i < n" "j < n"
  have "mat_mul (mat_mul A B) C ! i ! j = (\<Sum>l<n. mat_mul A B ! i ! l * C ! l ! j)"
    by (rule nth_mat_mul[OF AB C n ij])
  also have "\<dots> = (\<Sum>l<n. (\<Sum>k<n. A ! i ! k * B ! k ! l) * C ! l ! j)"
    using nth_mat_mul[OF A B n ij(1)] by (intro sum.cong) simp_all
  also have "\<dots> = (\<Sum>l<n. \<Sum>k<n. A ! i ! k * (B ! k ! l * C ! l ! j))"
    by (simp add: sum_distrib_right mult.assoc)
  also have "\<dots> = (\<Sum>k<n. \<Sum>l<n. A ! i ! k * (B ! k ! l * C ! l ! j))"
    by (rule sum.swap)
  also have "\<dots> = (\<Sum>k<n. A ! i ! k * (\<Sum>l<n. B ! k ! l * C ! l ! j))"
    by (simp add: sum_distrib_left)
  also have "\<dots> = (\<Sum>k<n. A ! i ! k * mat_mul B C ! k ! j)"
    using nth_mat_mul[OF B C n _ ij(2)] by (intro sum.cong) simp_all
  also have "\<dots> = mat_mul A (mat_mul B C) ! i ! j"
    by (rule nth_mat_mul[OF A BC n ij, symmetric])
  finally show "mat_mul (mat_mul A B) C ! i ! j = mat_mul A (mat_mul B C) ! i ! j" .
qed

lemma is_inverse_unique:
  assumes M: "is_mat n n M" and n: "0 < n"
    and 1: "is_inverse n N1 M" and 2: "is_inverse n N2 M"
  shows "N1 = N2"
proof -
  have m1: "is_mat n n N1" and m2: "is_mat n n N2"
    using 1 2 by (simp_all add: is_inverse_def)
  have l: "mat_mul N1 M = eye n" using 1 by (simp add: is_inverse_def)
  have r: "mat_mul M N2 = eye n" using 2 by (simp add: is_inverse_def)
  have "N1 = mat_mul N1 (eye n)" by (rule mat_mul_eye_right[OF m1 n, symmetric])
  also have "\<dots> = mat_mul N1 (mat_mul M N2)" by (simp only: r)
  also have "\<dots> = mat_mul (mat_mul N1 M) N2" by (rule mat_mul_assoc[OF m1 M m2 n, symmetric])
  also have "\<dots> = mat_mul (eye n) N2" by (simp only: l)
  also have "\<dots> = N2" by (rule mat_mul_eye_left[OF m2 n])
  finally show ?thesis .
qed

lemma the_inverse:
  assumes M: "is_mat n n M" and n: "0 < n" and N: "is_inverse n N M"
  shows "(THE X. is_inverse n X M) = N"
proof (rule the_equality)
  show "is_inverse n N M" by fact
next
  fix X assume "is_inverse n X M"
  then show "X = N" by (rule is_inverse_unique[OF M n _ N])
qed

lemma linalg_inv_eq:
  assumes M: "is_mat n n M" and n: "0 < n" and N: "is_inverse n N M"
  shows "linalg_inv M = Inr N"
proof -
  have len: "length M = n" using M by (simp add: is_mat_def)
  have ex: "\<exists>X. is_inverse n X M" using N by blast
  show ?thesis
    unfolding linalg_inv_def len using M ex the_inverse[OF M n N] by simp
qed


section \<open>The isotropic law: stiffness, compliance and moduli\<close>

lemma is_mat_iso3: "is_mat 6 6 (iso3 a l m)"
  by (simp add: is_mat_def iso3_def)

lemma is_mat_iso2: "is_mat 3 3 (iso2 a l m)"
  by (simp add: is_mat_def iso2_def)

lemma mat_mul_iso3:
  "mat_mul (iso3 p q r) (iso3 a l m) =
     iso3 (p * a + 2 * q * l) (p * l + q * a + q * l) (r * m)"
  by (simp add: mat_mul_def iso3_def np_shape_def upt_rec algebra_simps)

lemma mat_mul_iso2:
  "mat_mul (iso2 p q r) (iso2 a l m) = iso2 (p * a + q * l) (p * l + q * a) (r * m)"
  by (simp add: mat_mul_def iso2_def np_shape_def upt_rec algebra_simps)

lemma eye6: "eye 6 = iso3 1 0 1"
  by (simp add: eye_def iso3_def upt_rec)

lemma eye3: "eye 3 = iso2 1 0 1"
  by (simp add: eye_def iso2_def upt_rec)

lemma KelvinMandel_3: 
  "KelvinMandel_Matrix 3 (iso3 a l m) = iso3 a l (2 * m)"
  by (simp add: KelvinMandel_Matrix_def KelvinMandel_coef_def iso3_def)

lemma KelvinMandel_2: 
  "KelvinMandel_Matrix 2 (iso2 a l m) = iso2 a l (2 * m)"
  by (simp add: KelvinMandel_Matrix_def KelvinMandel_coef_def iso2_def)

lemma is_inverse_iso3:
  assumes "a \<noteq> l" "a + 2 * l \<noteq> 0" "m \<noteq> 0"
  shows "is_inverse 6 (iso3 ((a + l) / ((a - l) * (a + 2 * l))) (- l / ((a - l) * (a + 2 * l))) (1 / m))
           (iso3 a l m)"
proof -
  define D where "D = (a - l) * (a + 2 * l)"
  have D: "D \<noteq> 0" using assms by (simp add: D_def)
  have e: "(a + l) * a - 2 * l * l = D" by (simp add: D_def algebra_simps)
  have "(a + l) / D * a + 2 * (- l / D) * l = ((a + l) * a - 2 * l * l) / D"
    by (simp add: diff_divide_distrib)
  then have 1: "(a + l) / D * a + 2 * (- l / D) * l = 1"
    using D e by simp
  have "(a + l) / D * l + - l / D * a + - l / D * l = ((a + l) * l - l * a - l * l) / D"
    by (simp add: diff_divide_distrib)
  also have "(a + l) * l - l * a - l * l = 0" by (simp add: algebra_simps)
  finally have 2: "(a + l) / D * l + - l / D * a + - l / D * l = 0" by simp
  have 3: "a * ((a + l) / D) + 2 * l * (- l / D) = 1"
    using 1 by (simp add: mult.commute)
  have 4: "a * (- l / D) + l * ((a + l) / D) + l * (- l / D) = 0"
    using 2 by (simp add: mult.commute add.commute)
  show ?thesis
    unfolding is_inverse_def mat_mul_iso3 eye6 D_def[symmetric]
    using assms 1 2 3 4 by (simp add: is_mat_iso3)
qed

lemma is_inverse_iso2:
  assumes "a \<noteq> l" "a + l \<noteq> 0" "m \<noteq> 0"
  shows "is_inverse 3 (iso2 (a / ((a - l) * (a + l))) (- l / ((a - l) * (a + l))) (1 / m))
           (iso2 a l m)"
proof -
  define D where "D = (a - l) * (a + l)"
  have D: "D \<noteq> 0" using assms by (simp add: D_def)
  have e: "a * a - l * l = D" by (simp add: D_def algebra_simps)
  have "a / D * a + - l / D * l = (a * a - l * l) / D"
    by (simp add: diff_divide_distrib)
  then have 1: "a / D * a + - l / D * l = 1"
    using D e by simp
  have 2: "a / D * l + - l / D * a = 0"
    by simp
  have 3: "a * (a / D) + l * (- l / D) = 1"
    using 1 by (simp add: mult.commute)
  have 4: "a * (- l / D) + l * (a / D) = 0"
    by simp
  show ?thesis
    unfolding is_inverse_def mat_mul_iso2 eye3 D_def[symmetric]
    using assms 1 2 3 4 by (simp add: is_mat_iso2)
qed

lemma frac_aux1:
  fixes E v x y :: real
  assumes "x \<noteq> 0" "y \<noteq> 0"
  shows "3 * (E * v / (x * y)) + 2 * (E / (2 * x)) = E * (3 * v + y) / (x * y)"
    and "E * v / (x * y) + E / (2 * x) = E * (2 * v + y) / (2 * x * y)"
  using assms by (simp_all add: field_simps)

lemma lame_3D:
  fixes E v :: real
  assumes "0 < E" "- 1 < v" "v < 1 / 2"
  defines "mu \<equiv> E / (2 * (1 + v))" and "l \<equiv> E * v / ((1 + v) * (1 - 2 * v))"
  shows "0 < mu" and "0 < 3 * l + 2 * mu" and "0 < l + mu"
proof -
  have p: "0 < 1 + v" "0 < 1 - 2 * v" using assms by simp_all
  then have nz: "1 + v \<noteq> 0" "1 - 2 * v \<noteq> 0" by simp_all
  show "0 < mu" using assms p by (simp add: mu_def)
  have "3 * l + 2 * mu = E * (3 * v + (1 - 2 * v)) / ((1 + v) * (1 - 2 * v))"
    unfolding l_def mu_def by (rule frac_aux1(1)[OF nz])
  moreover have "0 < E * (3 * v + (1 - 2 * v))" using assms by simp
  ultimately show "0 < 3 * l + 2 * mu" using p by simp
  have "l + mu = E * (2 * v + (1 - 2 * v)) / (2 * (1 + v) * (1 - 2 * v))"
    unfolding l_def mu_def by (rule frac_aux1(2)[OF nz])
  moreover have "0 < E * (2 * v + (1 - 2 * v))" using assms by simp
  ultimately show "0 < l + mu" using p by simp
qed

lemma lame_plane_stress:
  fixes E v :: real
  assumes "0 < E" "- 1 < v" "v < 1 / 2"
  defines "mu \<equiv> E / (2 * (1 + v))" and "l \<equiv> E * v / (1 - v\<^sup>2)"
  shows "0 < l + mu"
proof -
  have p: "0 < 1 + v" "0 < 1 - v" using assms by simp_all
  then have nz: "1 + v \<noteq> 0" "1 - v \<noteq> 0" by simp_all
  have f: "1 - v\<^sup>2 = (1 + v) * (1 - v)" by (simp add: power2_eq_square algebra_simps)
  have "l + mu = E * (2 * v + (1 - v)) / (2 * (1 + v) * (1 - v))"
    unfolding l_def mu_def f by (rule frac_aux1(2)[OF nz])
  moreover have "0 < E * (2 * v + (1 - v))" using assms by simp
  ultimately show "0 < l + mu" using p by simp
qed

lemma get_mu_admissible:
  assumes "- 1 < Elas_Isot_v s"
  shows "get_mu s = Inr (Elas_Isot_E s / (2 * (1 + Elas_Isot_v s)))"
  using assms by (simp add: get_mu_def py_div_def)

lemma get_lambda_admissible:
  assumes "- 1 < Elas_Isot_v s" "Elas_Isot_v s < 1 / 2"
  shows "get_lambda s =
     Inr (if Elas_Isot_dim s = 2 \<and> Elas_planeStress s
          then Elas_Isot_E s * Elas_Isot_v s / (1 - (Elas_Isot_v s)\<^sup>2)
          else Elas_Isot_E s * Elas_Isot_v s / ((1 + Elas_Isot_v s) * (1 - 2 * Elas_Isot_v s)))"
proof -
  let ?v = "Elas_Isot_v s"
  have nz: "1 + ?v \<noteq> 0" "1 - 2 * ?v \<noteq> 0" using assms by auto
  have "1 - ?v\<^sup>2 = (1 + ?v) * (1 - ?v)" by (simp add: power2_eq_square algebra_simps)
  moreover have "1 - ?v \<noteq> 0" using assms by simp
  ultimately have nz2: "1 - ?v\<^sup>2 \<noteq> 0" using nz by simp
  show ?thesis
    using nz nz2 by (simp add: get_lambda_def py_div_def and_then_def Let_def)
qed

lemma Elas_Isot_Behavior_3:
  assumes mu: "get_mu s = Inr mu" and l: "get_lambda s = Inr l"
    and "mu \<noteq> 0" "3 * l + 2 * mu \<noteq> 0"
  shows "Elas_Isot_Behavior s (Some 3) =
    Inr (iso3 (l + 2 * mu) l (2 * mu),
         iso3 ((l + 2 * mu + l) / ((l + 2 * mu - l) * (l + 2 * mu + 2 * l)))
              (- l / ((l + 2 * mu - l) * (l + 2 * mu + 2 * l))) (1 / (2 * mu)))"
proof -
  have inv: "linalg_inv (iso3 (l + 2 * mu) l (2 * mu)) =
      Inr (iso3 ((l + 2 * mu + l) / ((l + 2 * mu - l) * (l + 2 * mu + 2 * l)))
              (- l / ((l + 2 * mu - l) * (l + 2 * mu + 2 * l))) (1 / (2 * mu)))"
    using assms by (intro linalg_inv_eq[OF is_mat_iso3] is_inverse_iso3) simp_all
  have c: "KelvinMandel_Matrix 3 (Heterogeneous_Array
             [[l + 2 * mu, l, l, 0, 0, 0],
              [l, l + 2 * mu, l, 0, 0, 0],
              [l, l, l + 2 * mu, 0, 0, 0],
              [0, 0, 0, mu, 0, 0],
              [0, 0, 0, 0, mu, 0],
              [0, 0, 0, 0, 0, mu]]) = iso3 (l + 2 * mu) l (2 * mu)"
    using KelvinMandel_3[of "l + 2 * mu" l mu] by (simp add: Heterogeneous_Array_def iso3_def)
  show ?thesis
    unfolding Elas_Isot_Behavior_def mu l
    by (simp add: and_then_def py_assert_def Let_def c inv del: One_nat_def)
qed

lemma Elas_Isot_Behavior_2:
  assumes mu: "get_mu s = Inr mu" and l: "get_lambda s = Inr l"
    and "mu \<noteq> 0" "l + mu \<noteq> 0"
  shows "Elas_Isot_Behavior s (Some 2) =
    Inr (iso2 (l + 2 * mu) l (2 * mu),
         iso2 ((l + 2 * mu) / ((l + 2 * mu - l) * (l + 2 * mu + l)))
              (- l / ((l + 2 * mu - l) * (l + 2 * mu + l))) (1 / (2 * mu)))"
proof -
  have inv: "linalg_inv (iso2 (l + 2 * mu) l (2 * mu)) =
      Inr (iso2 ((l + 2 * mu) / ((l + 2 * mu - l) * (l + 2 * mu + l)))
              (- l / ((l + 2 * mu - l) * (l + 2 * mu + l))) (1 / (2 * mu)))"
    using assms by (intro linalg_inv_eq[OF is_mat_iso2] is_inverse_iso2) simp_all
  have c: "KelvinMandel_Matrix 2 (Heterogeneous_Array
             [[l + 2 * mu, l, 0],
              [l, l + 2 * mu, 0],
              [0, 0, mu]]) = iso2 (l + 2 * mu) l (2 * mu)"
    using KelvinMandel_2[of "l + 2 * mu" l mu] by (simp add: Heterogeneous_Array_def iso2_def)
  show ?thesis
    unfolding Elas_Isot_Behavior_def mu l
    by (simp add: and_then_def py_assert_def Let_def c inv del: One_nat_def)
qed

lemma Elas_Isot_Behavior_None:
  "Elas_Isot_dim s = 2 \<or> Elas_Isot_dim s = 3 \<Longrightarrow>
     Elas_Isot_Behavior s None = Elas_Isot_Behavior s (Some (Elas_Isot_dim s))"
  by (auto simp: Elas_Isot_Behavior_def and_then_def py_assert_def)

lemma Elas_Isot_Behavior_inverse:
  assumes E: "0 < Elas_Isot_E s" and v: "- 1 < Elas_Isot_v s" "Elas_Isot_v s < 1 / 2"
    and d: "Elas_Isot_dim s = 2 \<or> Elas_Isot_dim s = 3"
  shows "\<exists>C S. Elas_Isot_Behavior s (Some (Elas_Isot_dim s)) = Inr (C, S) \<and>
           is_inverse (if Elas_Isot_dim s = 2 then 3 else 6) S C"
proof -
  define mu where "mu = Elas_Isot_E s / (2 * (1 + Elas_Isot_v s))"
  define l3 where "l3 = Elas_Isot_E s * Elas_Isot_v s / ((1 + Elas_Isot_v s) * (1 - 2 * Elas_Isot_v s))"
  define l2 where "l2 = Elas_Isot_E s * Elas_Isot_v s / (1 - (Elas_Isot_v s)\<^sup>2)"
  define l where "l = (if Elas_Isot_dim s = 2 \<and> Elas_planeStress s then l2 else l3)"
  have mu: "get_mu s = Inr mu" unfolding mu_def using v(1) by (rule get_mu_admissible)
  have l: "get_lambda s = Inr l"
    unfolding l_def l2_def l3_def using v by (rule get_lambda_admissible)
  have mu_pos: "0 < mu" and k3: "0 < 3 * l3 + 2 * mu" and s3: "0 < l3 + mu"
    unfolding mu_def l3_def using E v by (rule lame_3D)+
  have s2: "0 < l2 + mu"
    unfolding mu_def l2_def using E v by (rule lame_plane_stress)
  from d show ?thesis
  proof
    assume d2: "Elas_Isot_dim s = 2"
    have "0 < l + mu" using s2 s3 by (simp add: l_def)
    then have nz: "mu \<noteq> 0" "l + mu \<noteq> 0" using mu_pos by simp_all
    have "is_inverse 3 (iso2 ((l + 2 * mu) / ((l + 2 * mu - l) * (l + 2 * mu + l)))
              (- l / ((l + 2 * mu - l) * (l + 2 * mu + l))) (1 / (2 * mu)))
            (iso2 (l + 2 * mu) l (2 * mu))"
      using nz by (intro is_inverse_iso2) simp_all
    then show ?thesis
      using Elas_Isot_Behavior_2[OF mu l nz] d2 by simp
  next
    assume d3: "Elas_Isot_dim s = 3"
    then have "l = l3" by (simp add: l_def)
    then have nz: "mu \<noteq> 0" "3 * l + 2 * mu \<noteq> 0" using mu_pos k3 by simp_all
    have "is_inverse 6 (iso3 ((l + 2 * mu + l) / ((l + 2 * mu - l) * (l + 2 * mu + 2 * l)))
              (- l / ((l + 2 * mu - l) * (l + 2 * mu + 2 * l))) (1 / (2 * mu)))
            (iso3 (l + 2 * mu) l (2 * mu))"
      using nz by (intro is_inverse_iso3) simp_all
    then show ?thesis
      using Elas_Isot_Behavior_3[OF mu l nz] d3 by simp
  qed
qed

lemma scenario_init:
  "Elas_Isot_init 3 210000 (3 / 10) True 1 = Inr scenario_3D"
  "Elas_Isot_init 2 210000 (3 / 10) True 1 = Inr scenario_2D"
  by (simp_all add: Elas_Isot_init_def and_then_def py_assert_def Test_Sup0_def Test_In_def
        scenario_3D_def scenario_2D_def)

lemma Elas_Isot_C_stale:
  assumes "needUpdate s" and "Elas_Isot_Behavior s (Some (Elas_dim s)) = Inr (C, S)"
    and "np_shape C = (if Elas_dim s = 2 then (3, 3) else (6, 6))"
    and "np_shape S = (if Elas_dim s = 2 then (3, 3) else (6, 6))"
  shows "Elas_Isot_C s = (Inr C, s\<lparr>needUpdate := False, Elas_C := Some C, Elas_S := Some S\<rparr>)"
  using assms
  by (simp add: Elas_Isot_C_def Elas_Isot_refresh_def Elas_Isot_Update_def C_setter_def
        S_setter_def Need_Update_def Let_def)

lemma np_shape_iso3: "np_shape (iso3 a l m) = (6, 6)"
  by (simp add: np_shape_def iso3_def)

lemma np_shape_iso2: "np_shape (iso2 a l m) = (3, 3)"
  by (simp add: np_shape_def iso2_def)

lemma scenario_3D_moduli:
  "get_mu scenario_3D = Inr (1050000 / 13)"
  "get_lambda scenario_3D = Inr (1575000 / 13)"
  by (simp_all add: get_mu_def get_lambda_def py_div_def and_then_def scenario_3D_def)

lemma scenario_3D_C:
  "\<exists>s'. Elas_Isot_C scenario_3D = (Inr (iso3 (3675000 / 13) (1575000 / 13) (2100000 / 13)), s')"
proof -
  have b: "Elas_Isot_Behavior scenario_3D (Some 3) =
    Inr (iso3 (1575000 / 13 + 2 * (1050000 / 13)) (1575000 / 13) (2 * (1050000 / 13)),
         iso3 ((1575000 / 13 + 2 * (1050000 / 13) + 1575000 / 13) /
                 ((1575000 / 13 + 2 * (1050000 / 13) - 1575000 / 13) *
                  (1575000 / 13 + 2 * (1050000 / 13) + 2 * (1575000 / 13))))
              (- (1575000 / 13) /
                 ((1575000 / 13 + 2 * (1050000 / 13) - 1575000 / 13) *
                  (1575000 / 13 + 2 * (1050000 / 13) + 2 * (1575000 / 13))))
              (1 / (2 * (1050000 / 13))))"
    by (rule Elas_Isot_Behavior_3[OF scenario_3D_moduli]) simp_all
  have d: "Elas_dim scenario_3D = 3" "needUpdate scenario_3D"
    by (simp_all add: scenario_3D_def)
  show ?thesis
    using Elas_Isot_C_stale[OF d(2) b[folded d(1)]] d(1)
    by (simp add: np_shape_iso3)
qed

lemma get_bulk_admissible:
  assumes "get_mu s = Inr mu" "get_lambda s = Inr l" "Elas_dim s = 2 \<or> Elas_dim s = 3"
  shows "get_bulk s = Inr (l + 2 * mu / of_int (Elas_dim s))"
  using assms by (auto simp: get_bulk_def and_then_def py_div_def)

section \<open>Walpole decomposition and the transversely isotropic reduction\<close>

lemma Walpole_E1:
  "scal (1 / 3) (Tensor_Product [1, 1, 1, 0, 0, 0] [1, 1, 1, 0, 0, 0]) = iso3 (1 / 3) (1 / 3) 0"
  by (simp add: scal_def Tensor_Product_def iso3_def)

lemma scal_iso3: "scal x (iso3 a b c) = iso3 (x * a) (x * b) (x * c)"
  by (simp add: scal_def iso3_def)

lemma np_broadcast_iso3:
  "np_broadcast f (iso3 a b c) (iso3 a' b' c') =
     Inr [[f a a', f b b', f b b', f 0 0, f 0 0, f 0 0],
          [f b b', f a a', f b b', f 0 0, f 0 0, f 0 0],
          [f b b', f b b', f a a', f 0 0, f 0 0, f 0 0],
          [f 0 0, f 0 0, f 0 0, f c c', f 0 0, f 0 0],
          [f 0 0, f 0 0, f 0 0, f 0 0, f c c', f 0 0],
          [f 0 0, f 0 0, f 0 0, f 0 0, f 0 0, f c c']]"
  by (simp add: np_broadcast_def np_shape_def iso3_def upt_rec)

lemma np_add_iso3: "np_add (iso3 a b c) (iso3 a' b' c') = Inr (iso3 (a + a') (b + b') (c + c'))"
  by (simp add: np_add_def np_broadcast_iso3) (simp add: iso3_def)

lemma np_sub_iso3: "np_sub (iso3 a b c) (iso3 a' b' c') = Inr (iso3 (a - a') (b - b') (c - c'))"
  by (simp add: np_sub_def np_broadcast_iso3) (simp add: iso3_def)

lemma np_sub_iso3_iso2: "np_sub (iso3 a b c) (iso2 a' b' c') = Inl ValueError"
  by (simp add: np_sub_def np_broadcast_def np_shape_def iso3_def iso2_def)

lemma linalg_norm_iso3:
  "linalg_norm (iso3 a b c) = sqrt (3 * a\<^sup>2 + 6 * b\<^sup>2 + 3 * c\<^sup>2)"
  by (simp add: linalg_norm_def iso3_def)

lemma Elas_Isot_C_clean:
  assumes "\<not> needUpdate s" and "Elas_C s = Some C"
  shows "Elas_Isot_C s = (Inr C, s)"
  using assms by (simp add: Elas_Isot_C_def Elas_Isot_refresh_def)

lemma Walpole_check_3D:
  assumes "mu \<noteq> 0"
  shows "Walpole_check (l + 2 * mu / 3) mu (iso3 (1 / 3) (1 / 3) 0) (iso3 (2 / 3) (- 1 / 3) 1)
           (iso3 (l + 2 * mu) l (2 * mu)) = Inr ()"
proof -
  have s: "np_add (scal (3 * (l + 2 * mu / 3)) (iso3 (1 / 3) (1 / 3) 0))
                  (scal (2 * mu) (iso3 (2 / 3) (- 1 / 3) 1)) = Inr (iso3 (l + 2 * mu) l (2 * mu))"
    by (simp add: scal_iso3 np_add_iso3 algebra_simps)
  have n: "linalg_norm (iso3 (l + 2 * mu) l (2 * mu)) \<noteq> 0"
  proof -
    have "0 < 3 * (2 * mu)\<^sup>2" using assms by simp
    moreover have "0 \<le> 3 * (l + 2 * mu)\<^sup>2 + 6 * l\<^sup>2" by simp
    ultimately have "0 < 3 * (l + 2 * mu)\<^sup>2 + 6 * l\<^sup>2 + 3 * (2 * mu)\<^sup>2" by linarith
    then show ?thesis by (simp add: linalg_norm_iso3)
  qed
  have z: "linalg_norm (iso3 0 0 0) = 0" by (simp add: linalg_norm_iso3)
  show ?thesis
    unfolding Walpole_check_def s
    using n by (simp add: and_then_def np_sub_iso3 z np_divide_def np_le_def py_assert_def tol12_def)
qed

lemma Walpole_check_2D:
  "Walpole_check c1 c2 (iso3 p q r) (iso3 p' q' r') (iso2 a b c) = Inl ValueError"
  by (simp add: Walpole_check_def scal_iso3 np_add_iso3 and_then_def np_sub_iso3_iso2)

lemma Walpole_E2:
  "np_sub (eye 6) (iso3 (1 / 3) (1 / 3) 0) = Inr (iso3 (2 / 3) (- 1 / 3) 1)"
  by (simp add: eye6 np_sub_iso3)

lemma Elas_Isot_Walpole_stale:
  assumes stale: "needUpdate s"
    and bulk: "get_bulk s = Inr c1" and mu: "get_mu s = Inr c2"
    and beh: "Elas_Isot_Behavior s (Some (Elas_dim s)) = Inr (C, S)"
    and shape: "np_shape C = (if Elas_dim s = 2 then (3, 3) else (6, 6))"
               "np_shape S = (if Elas_dim s = 2 then (3, 3) else (6, 6))"
  shows "Elas_Isot_Walpole_Decomposition s =
    (case Walpole_check c1 c2 (iso3 (1 / 3) (1 / 3) 0) (iso3 (2 / 3) (- 1 / 3) 1) C of
       Inl e \<Rightarrow> (Inl e, s\<lparr>needUpdate := False, Elas_C := Some C, Elas_S := Some S\<rparr>)
     | Inr _ \<Rightarrow> (Inr ((c1, c2), (iso3 1 1 0, iso3 (4 / 3) (- 2 / 3) 2)),
                 s\<lparr>needUpdate := False, Elas_C := Some C, Elas_S := Some S\<rparr>))"
proof -
  let ?s1 = "s\<lparr>needUpdate := False, Elas_C := Some C, Elas_S := Some S\<rparr>"
  have c: "Elas_Isot_C s = (Inr C, ?s1)"
    using stale beh shape by (rule Elas_Isot_C_stale)
  have c1: "Elas_Isot_C ?s1 = (Inr C, ?s1)"
    by (rule Elas_Isot_C_clean) simp_all
  show ?thesis
    unfolding Elas_Isot_Walpole_Decomposition_def bulk mu Elas_Isot_isHeterogeneous_def
    by (simp add: Let_def Walpole_E1 Walpole_E2 c c1 scal_iso3 split: sum.splits)
qed

lemma Elas_Isot_Walpole_3D:
  assumes E: "0 < Elas_Isot_E s" and v: "- 1 < Elas_Isot_v s" "Elas_Isot_v s < 1 / 2"
    and d: "Elas_dim s = 3" "Elas_Isot_dim s = 3" and stale: "needUpdate s"
  defines "mu \<equiv> Elas_Isot_E s / (2 * (1 + Elas_Isot_v s))"
    and "l \<equiv> Elas_Isot_E s * Elas_Isot_v s / ((1 + Elas_Isot_v s) * (1 - 2 * Elas_Isot_v s))"
  shows "\<exists>s'. Elas_Isot_Walpole_Decomposition s =
           (Inr ((l + 2 * mu / 3, mu), (iso3 1 1 0, iso3 (4 / 3) (- 2 / 3) 2)), s')"
proof -
  have mu: "get_mu s = Inr mu" unfolding mu_def using v(1) by (rule get_mu_admissible)
  have l: "get_lambda s = Inr l"
    using get_lambda_admissible[OF v] d by (simp add: l_def)
  have bulk: "get_bulk s = Inr (l + 2 * mu / 3)"
    using get_bulk_admissible[OF mu l] d by simp
  have "0 < mu" and "0 < 3 * l + 2 * mu"
    unfolding mu_def l_def using E v by (rule lame_3D)+
  then have nz: "mu \<noteq> 0" "3 * l + 2 * mu \<noteq> 0" by simp_all
  note beh = Elas_Isot_Behavior_3[OF mu l nz, folded d(1)]
  show ?thesis
    using Elas_Isot_Walpole_stale[OF stale bulk mu beh] d Walpole_check_3D[OF nz(1), of l]
    by (simp add: np_shape_iso3)
qed

lemma Elas_Isot_Walpole_2D:
  assumes E: "0 < Elas_Isot_E s" and v: "- 1 < Elas_Isot_v s" "Elas_Isot_v s < 1 / 2"
    and d: "Elas_dim s = 2" "Elas_Isot_dim s = 2" and stale: "needUpdate s"
  shows "\<exists>s'. Elas_Isot_Walpole_Decomposition s = (Inl ValueError, s')"
proof -
  define mu where "mu = Elas_Isot_E s / (2 * (1 + Elas_Isot_v s))"
  define l3 where "l3 = Elas_Isot_E s * Elas_Isot_v s / ((1 + Elas_Isot_v s) * (1 - 2 * Elas_Isot_v s))"
  define l2 where "l2 = Elas_Isot_E s * Elas_Isot_v s / (1 - (Elas_Isot_v s)\<^sup>2)"
  define l where "l = (if Elas_planeStress s then l2 else l3)"
  have mu: "get_mu s = Inr mu" unfolding mu_def using v(1) by (rule get_mu_admissible)
  have l: "get_lambda s = Inr l"
    using get_lambda_admissible[OF v] d by (simp add: l_def l2_def l3_def)
  have bulk: "get_bulk s = Inr (l + 2 * mu / 2)"
    using get_bulk_admissible[OF mu l] d by simp
  have "0 < mu" and "0 < l3 + mu"
    unfolding mu_def l3_def using E v by (rule lame_3D)+
  moreover have "0 < l2 + mu"
    unfolding mu_def l2_def using E v by (rule lame_plane_stress)
  ultimately have nz: "mu \<noteq> 0" "l + mu \<noteq> 0" by (simp_all add: l_def)
  note beh = Elas_Isot_Behavior_2[OF mu l nz, folded d(1)]
  show ?thesis
    using Elas_Isot_Walpole_stale[OF stale bulk mu beh] d
    by (simp add: np_shape_iso2 Walpole_check_2D)
qed




lemma Elas_IsotTrans_init_rejects_positive_dot:
  assumes "dim' = 2 \<or> dim' = 3" and "0 < El" "0 < Et" "0 < Gl"
    and "- 1 < vl" "vl < 1" "- 1 < vt" "vt < 1 / 2"
    and "length axis_l = 3" "length axis_t = 3" and "tol12 < dot axis_l axis_t"
  shows "Elas_IsotTrans_init dim' El Et Gl vl vt axis_l axis_t planeStress thickness =
           Inl (AssertionError ''axis1 and axis2 must be perpendicular'')"
  using assms
  by (simp add: Elas_IsotTrans_init_def and_then_def py_assert_def Test_Sup0_def Test_In_def
        As_Coordinates_def)

section \<open>The transversely isotropic law: arrays, material matrices and the reduction\<close>



lemma sample_reduce_C:
  "take_rows [0, 1, 5] sample_cM = Inr [sample_cM ! 0, sample_cM ! 1, sample_cM ! 5]"
  "take_cols [0, 1, 5] [sample_cM ! 0, sample_cM ! 1, sample_cM ! 5] = Inr sample_C_strain"
  "restrict_015 sample_cM = sample_C_strain"
  by (simp_all add: take_rows_def take_cols_def np_shape_def sample_cM_def sample_C_strain_def restrict_015_def)

lemma sample_inv_strain: "linalg_inv sample_C_strain = Inr sample_S_strain"
  by (rule linalg_inv_eq[of 3])
     (simp_all add: is_inverse_def is_mat_def mat_mul_def eye_def np_shape_def upt_rec
        sample_S_strain_def sample_C_strain_def)

lemma and_then_simps: "and_then (Inr x) f = f x" "and_then (Inl e) f = Inl e"
  by (simp_all add: and_then_def)



lemma collect_map_total: "collect (map (\<lambda>x. Inr (f x)) xs) = Inr (map f xs)"
  by (induction xs) (simp_all add: and_then_simps)















lemma np_sub_self: "\<exists>Z. np_sub A A = Inr Z \<and> linalg_norm Z = 0"
  by (simp add: np_sub_def np_broadcast_def linalg_norm_def o_def split: prod.split)











lemma array_Gt: "Gt (sample_array ps) = Inr (PerElement [1 / 2, 1 / 2])"
  by (simp add: Gt_def sample_array_def p_div_def batch_collect_def and_then_simps batch_ndim_def)

lemma array_kt: "kt (sample_array ps) = Inr (PerElement [2 / 3, 1 / 2])"
  by (simp add: kt_def sample_array_def p_div_def p_mul_def p_sub_def batch_collect_def
        broadcast_list_def and_then_simps batch_ndim_def power2_eq_square)

lemma array_sM:
  "material_sM (sample_array ps) (PerElement [1 / 2, 1 / 2]) (PerElement [2 / 3, 1 / 2]) =
     Inr (PerElement [sample_sM, eye 6])"
  by (simp add: material_sM_def sample_array_def p_div_def batch_collect_def
        broadcast_list_def and_then_simps batch_ndim_def np_array_def Heterogeneous_Array_nd_def
        same_shape_def entry_at_def sample_sM_def eye_def upt_rec Let_def)

lemma array_cM:
  "material_cM (sample_array ps) (PerElement [1 / 2, 1 / 2]) (PerElement [2 / 3, 1 / 2]) =
     Inr (PerElement [sample_cM, eye 6])"
  by (simp add: material_cM_def sample_array_def p_add_def p_sub_def p_mul_def batch_collect_def
        broadcast_list_def and_then_simps batch_ndim_def np_array_def Heterogeneous_Array_nd_def
        same_shape_def entry_at_def sample_cM_def eye_def upt_rec Let_def power2_eq_square)

lemma array_close:
  "nd_assert_close (PerElement [sample_cM, eye 6]) (PerElement [sample_cM, eye 6])
     (PerElement [sample_cM, eye 6]) = Inr ()"
  "nd_assert_close (PerElement [sample_sM, eye 6]) (PerElement [sample_sM, eye 6])
     (PerElement [sample_sM, eye 6]) = Inr ()"
proof -
  have n: "linalg_norm sample_cM \<noteq> 0" "linalg_norm sample_sM \<noteq> 0" "linalg_norm (eye 6) \<noteq> 0"
    by (simp_all add: linalg_norm_def sample_cM_def sample_sM_def eye_def upt_rec power2_eq_square)
  obtain Zc Zs Ze where Z: "np_sub sample_cM sample_cM = Inr Zc" "linalg_norm Zc = 0"
    "np_sub sample_sM sample_sM = Inr Zs" "linalg_norm Zs = 0"
    "np_sub (eye 6) (eye 6) = Inr Ze" "linalg_norm Ze = 0"
    using np_sub_self by metis
  show "nd_assert_close (PerElement [sample_cM, eye 6]) (PerElement [sample_cM, eye 6])
     (PerElement [sample_cM, eye 6]) = Inr ()"
    using n Z
    by (simp add: nd_assert_close_def broadcast_list_def and_then_simps np_divide_def
          np_max_def batch_entries_def np_less_def py_assert_def tol12_def)
  show "nd_assert_close (PerElement [sample_sM, eye 6]) (PerElement [sample_sM, eye 6])
     (PerElement [sample_sM, eye 6]) = Inr ()"
    using n Z
    by (simp add: nd_assert_close_def broadcast_list_def and_then_simps np_divide_def
          np_max_def batch_entries_def np_less_def py_assert_def tol12_def)
qed

lemma reduce_eye:
  "take_rows [0, 1, 5] (eye 6) = Inr [eye 6 ! 0, eye 6 ! 1, eye 6 ! 5]"
  "take_cols [0, 1, 5] [eye 6 ! 0, eye 6 ! 1, eye 6 ! 5] = Inr (eye 3)"
  "restrict_015 (eye 6) = eye 3"
  by (simp_all add: take_rows_def take_cols_def np_shape_def eye_def restrict_015_def upt_rec)

lemma linalg_inv_eye3: "linalg_inv (eye 3) = Inr (eye 3)"
  by (rule linalg_inv_eq[of 3])
     (simp_all add: is_inverse_def is_mat_eye mat_mul_eye_left[OF is_mat_eye])


lemma array_run_strain:
  "Elas_IsotTrans_Behavior (\<lambda>a b. Inr (eye 6)) (\<lambda>P M. Inr M) (sample_array False) (Some 2) None =
     Inr (PerElement [sample_C_strain, eye 3], PerElement [sample_S_strain, eye 3])"
proof -
  have ps: "\<not> Elas_planeStress (sample_array False)" by (simp add: sample_array_def)
  have ax: "useSameAxis (sample_array False) = Inr True"
    by (simp add: useSameAxis_def np_sub1_def and_then_def linalg_norm1_def tol12_def upt_rec
        sample_array_def)
  show ?thesis
    unfolding Elas_IsotTrans_Behavior_def
    by (simp add: and_then_simps Let_def ax array_Gt array_kt array_sM array_cM array_close ps
          len_shape_def batch_ndim_def index_3_def sample_reduce_C reduce_eye
          nd_inv_def batch_collect_def sample_inv_strain linalg_inv_eye3
          del: One_nat_def)
qed






section \<open>Rounding in binary64 and the overflow of the first Lame parameter\<close>

lemma round_half_even_bounds:
  "\<bar>of_int (round_half_even q) - q\<bar> \<le> 1 / 2" "\<lfloor>q\<rfloor> \<le> round_half_even q"
  unfolding round_half_even_def by (auto simp: abs_if) linarith+

lemma ulp_pos: "0 < ulp x"
  by (simp add: ulp_def)

lemma ulp_normal:
  assumes "2 powr (- 1022) \<le> x"
  shows "ulp x = 2 powr (of_int \<lfloor>log 2 x\<rfloor> - 52)" "2 powr (of_int \<lfloor>log 2 x\<rfloor>) \<le> x"
proof -
  have x: "0 < x" using assms by (rule less_le_trans[rotated]) simp
  have "- 1022 \<le> log 2 x"
    using le_log_iff[of 2 x "- 1022"] assms x by simp
  then have "(- 1022 :: int) \<le> \<lfloor>log 2 x\<rfloor>" by (simp add: le_floor_iff)
  then have "max \<lfloor>log 2 x\<rfloor> (- 1022) = \<lfloor>log 2 x\<rfloor>" by (rule max_absorb1)
  moreover have "\<bar>x\<bar> = x" using x by simp
  ultimately have "max \<lfloor>log 2 \<bar>x\<bar>\<rfloor> (- 1022) = \<lfloor>log 2 x\<rfloor>" by simp
  then show "ulp x = 2 powr (of_int \<lfloor>log 2 x\<rfloor> - 52)"
    unfolding ulp_def by (rule arg_cong)
  have "2 powr (of_int \<lfloor>log 2 x\<rfloor>) \<le> 2 powr (log 2 x)"
    by (rule powr_mono) simp_all
  then show "2 powr (of_int \<lfloor>log 2 x\<rfloor>) \<le> x" using x by simp
qed

lemma rne_error:
  assumes "2 powr (- 1022) \<le> x"
  shows "\<bar>rne x - x\<bar> \<le> x / 2 ^ 53"
proof -
  have x: "0 < x" using assms by (rule less_le_trans[rotated]) simp
  define e where "e = \<lfloor>log 2 x\<rfloor>"
  have u: "ulp x = 2 powr (of_int e - 52)" and le: "2 powr (of_int e) \<le> x"
    using ulp_normal[OF assms] by (simp_all add: e_def)
  define m where "m = round_half_even (x / ulp x)"
  have "rne x - x = (of_int m - x / ulp x) * ulp x"
    using x ulp_pos[of x] by (simp add: rne_def m_def field_simps)
  then have "\<bar>rne x - x\<bar> = \<bar>of_int m - x / ulp x\<bar> * ulp x"
    using ulp_pos[of x] by (simp add: abs_mult)
  also have "\<dots> \<le> 1 / 2 * ulp x"
    using round_half_even_bounds(1)[of "x / ulp x"] ulp_pos[of x]
    by (intro mult_right_mono) (simp_all add: m_def)
  also have "1 / 2 * ulp x = 2 powr (of_int e) / 2 ^ 53"
    unfolding u by (simp add: powr_diff powr_numeral)
  also have "\<dots> \<le> x / 2 ^ 53"
    using le by (simp add: divide_right_mono)
  finally show ?thesis .
qed

lemma rne_bounds:
  assumes "2 powr (- 1022) \<le> x"
  shows "x * (1 - 1 / 2 ^ 53) \<le> rne x" "rne x \<le> x * (1 + 1 / 2 ^ 53)"
proof -
  define d where "d = x / 2 ^ 53"
  have "\<bar>rne x - x\<bar> \<le> d" unfolding d_def using assms by (rule rne_error)
  then have "x - d \<le> rne x" "rne x \<le> x + d" by linarith+
  moreover have "x * (1 - 1 / 2 ^ 53) = x - d" "x * (1 + 1 / 2 ^ 53) = x + d"
    unfolding d_def by (simp_all only: right_diff_distrib distrib_left mult_1_right times_divide_eq_right)
  ultimately show "x * (1 - 1 / 2 ^ 53) \<le> rne x" "rne x \<le> x * (1 + 1 / 2 ^ 53)"
    by simp_all
qed

lemma rne_ge_binade:
  assumes "2 powr (- 1022) \<le> x"
  shows "2 powr (of_int \<lfloor>log 2 x\<rfloor>) \<le> rne x"
proof -
  have x: "0 < x" using assms by (rule less_le_trans[rotated]) simp
  define e where "e = \<lfloor>log 2 x\<rfloor>"
  have u: "ulp x = 2 powr (of_int e - 52)" and le: "2 powr (of_int e) \<le> x"
    using ulp_normal[OF assms] by (simp_all add: e_def)
  have "2 powr (of_int e) / ulp x = 2 ^ 52"
    unfolding u by (simp add: powr_diff powr_numeral)
  then have "2 ^ 52 \<le> x / ulp x"
    using le ulp_pos[of x] by (metis divide_right_mono less_imp_le)
  then have "(2 ^ 52 :: int) \<le> \<lfloor>x / ulp x\<rfloor>"
    by (simp add: le_floor_iff)
  then have "(2 ^ 52 :: int) \<le> round_half_even (x / ulp x)"
    using round_half_even_bounds(2)[of "x / ulp x"] by linarith
  then have "(2 ^ 52 :: real) \<le> of_int (round_half_even (x / ulp x))"
    by (metis of_int_le_iff of_int_numeral of_int_power)
  then have "2 ^ 52 * ulp x \<le> rne x"
    using x ulp_pos[of x] by (simp add: rne_def mult_right_mono)
  moreover have "2 ^ 52 * ulp x = 2 powr (of_int e)"
    unfolding u by (simp add: powr_diff powr_numeral)
  ultimately show ?thesis by (simp add: e_def)
qed

lemma rne_overflow:
  assumes "2 ^ 1024 \<le> x"
  shows "round64 x = PosInf"
proof -
  have x: "0 < x" using assms by (rule less_le_trans[rotated]) simp
  have n: "2 powr (- 1022) \<le> x"
  proof -
    have "2 powr (- 1022) \<le> (1::real)" by (simp add: powr_minus field_simps)
    also have "\<dots> \<le> 2 ^ 1024" by simp
    finally show ?thesis using assms by linarith
  qed
  have "1024 \<le> log 2 x"
    using le_log_iff[of 2 x 1024] assms x by simp
  then have "(1024 :: int) \<le> \<lfloor>log 2 x\<rfloor>" by (simp add: le_floor_iff)
  then have "(2::real) powr 1024 \<le> 2 powr (of_int \<lfloor>log 2 x\<rfloor>)"
    by (intro powr_mono) simp_all
  also have "\<dots> \<le> rne x" using n by (rule rne_ge_binade)
  finally have "2 ^ 1024 \<le> rne x"
    by (simp add: powr_numeral)
  then show ?thesis by (simp add: round64_def)
qed

lemma tiny: "2 powr (- 1022) \<le> (1 / 1000 :: real)"
proof -
  have "(1000 :: real) \<le> 2 ^ 10" by simp
  also have "\<dots> \<le> 2 ^ 1022" by (rule power_increasing) simp_all
  finally have "1 / (2 ^ 1022 :: real) \<le> 1 / 1000"
    by (intro divide_left_mono) simp_all
  moreover have "2 powr (- 1022) = 1 / (2 ^ 1022 :: real)"
    by (simp add: powr_minus_divide)
  ultimately show ?thesis by simp
qed

lemma rne_coarse:
  assumes "1 / 1000 \<le> x"
  shows "999 / 1000 * x \<le> rne x" "rne x \<le> 1001 / 1000 * x"
proof -
  have n: "2 powr (- 1022) \<le> x" using tiny assms by linarith
  have x: "0 \<le> x" using assms by linarith
  have e: "(1 / 2 ^ 53 :: real) \<le> 1 / 1000"
  proof -
    have "(1000 :: real) \<le> 2 ^ 10" by simp
    also have "\<dots> \<le> 2 ^ 53" by (rule power_increasing) simp_all
    finally show ?thesis by (intro divide_left_mono) simp_all
  qed
  have "999 / 1000 * x = x * (1 - 1 / 1000)" by simp
  also have "\<dots> \<le> x * (1 - 1 / 2 ^ 53)"
    using e x by (intro mult_left_mono) linarith+
  also have "\<dots> \<le> rne x" using n by (rule rne_bounds)
  finally show "999 / 1000 * x \<le> rne x" .
  have "rne x \<le> x * (1 + 1 / 2 ^ 53)" using n by (rule rne_bounds)
  also have "\<dots> \<le> x * (1 + 1 / 1000)"
    using e x by (intro mult_left_mono) linarith+
  also have "\<dots> = 1001 / 1000 * x" by simp
  finally show "rne x \<le> 1001 / 1000 * x" .
qed

lemma round64_finite:
  assumes "1 / 1000 \<le> x" "x \<le> 10 ^ 308"
  shows "round64 x = Finite (rne x)"
proof -
  have "rne x \<le> 1001 / 1000 * x" using assms(1) by (rule rne_coarse)
  also have "\<dots> \<le> 1001 / 1000 * 10 ^ 308" using assms(2) by simp
  also have "\<dots> < (2 ^ 1024 :: real)" by simp
  finally have 1: "rne x < 2 ^ 1024" .
  have "0 \<le> 999 / 1000 * x" using assms(1) by simp
  also have "\<dots> \<le> rne x" using assms(1) by (rule rne_coarse)
  finally have "- (2 ^ 1024) < rne x" by (simp add: less_le_trans[of _ 0])
  with 1 show ?thesis by (simp add: round64_def del: power_numeral)
qed

lemma literal_bounds:
  "489 / 1000 \<le> rne (49 / 100)" "rne (49 / 100) \<le> 491 / 1000"
  "999 / 1000 * 10 ^ 308 \<le> rne (10 ^ 308)" "rne (10 ^ 308) \<le> 1001 / 1000 * 10 ^ 308"
proof -
  have v: "(1 / 1000 :: real) \<le> 49 / 100" by simp
  have E: "(1 / 1000 :: real) \<le> 10 ^ 308" by simp
  show "489 / 1000 \<le> rne (49 / 100)" using rne_coarse(1)[OF v] by simp
  show "rne (49 / 100) \<le> 491 / 1000" using rne_coarse(2)[OF v] by simp
  show "999 / 1000 * 10 ^ 308 \<le> rne (10 ^ 308)" using E by (rule rne_coarse)
  show "rne (10 ^ 308) \<le> 1001 / 1000 * 10 ^ 308" using E by (rule rne_coarse)
qed

lemma extreme_init: "Elas_Isot_init 3 (rne (10 ^ 308)) (rne (49 / 100)) True 1 = Inr extreme_3D"
proof -
  have "(0::real) < 999 / 1000 * 10 ^ 308" by simp
  then have "0 < rne (10 ^ 308)" using literal_bounds(3) by linarith
  moreover have "- 1 < rne (49 / 100)" "rne (49 / 100) < 1 / 2"
    using literal_bounds(1,2) by linarith+
  ultimately show ?thesis
    by (simp add: Elas_Isot_init_def and_then_def py_assert_def Test_Sup0_def Test_In_def
          extreme_3D_def)
qed

text \<open>An interval for a rounded positive quantity between one thousandth and 10^308.\<close>

lemma round64_between:
  assumes "lo \<le> x" "x \<le> hi" "1 / 1000 \<le> lo" "hi \<le> 10 ^ 308"
  shows "\<exists>r. round64 x = Finite r \<and> 999 / 1000 * lo \<le> r \<and> r \<le> 1001 / 1000 * hi"
proof -
  have x: "1 / 1000 \<le> x" "x \<le> 10 ^ 308" using assms by linarith+
  have "999 / 1000 * lo \<le> 999 / 1000 * x" using assms(1) by simp
  also have "\<dots> \<le> rne x" using x(1) by (rule rne_coarse)
  finally have 1: "999 / 1000 * lo \<le> rne x" .
  have "rne x \<le> 1001 / 1000 * x" using x(1) by (rule rne_coarse)
  also have "\<dots> \<le> 1001 / 1000 * hi" using assms(2) by simp
  finally have 2: "rne x \<le> 1001 / 1000 * hi" .
  show ?thesis using round64_finite[OF x] 1 2 by blast
qed

lemma lambda_overflow:
  assumes s: "Elas_Isot_E s = E" "Elas_Isot_v s = v" "Elas_Isot_dim s = 3"
    and vb: "489 / 1000 \<le> v" "v \<le> 491 / 1000"
    and Eb': "999 / 1000 * 10 ^ 308 \<le> E" "E \<le> 1001 / 1000 * 10 ^ 308"
  shows "get_lambda_binary64 s = Inr PosInf"
proof -
  define B :: real where "B = 10 ^ 308"
  have B: "10 ^ 300 \<le> B" unfolding B_def by (rule power_increasing) simp_all
  have B0: "0 < B" unfolding B_def by simp
  have Eb: "999 / 1000 * B \<le> E" "E \<le> 1001 / 1000 * B"
    unfolding B_def by (rule Eb')+
  have E0: "0 < E" using Eb(1) B0 by simp
  \<comment> \<open>\<open>E*v\<close>\<close>
  have "488 / 1000 * B \<le> (999 / 1000 * B) * (489 / 1000)" using B0 by simp
  also have "\<dots> \<le> E * v" using Eb(1) vb(1) B0 by (intro mult_mono) simp_all
  finally have Ev1: "488 / 1000 * B \<le> E * v" .
  have "E * v \<le> (1001 / 1000 * B) * (491 / 1000)"
    using Eb(2) vb B0 E0 by (intro mult_mono) simp_all
  also have "\<dots> \<le> 492 / 1000 * B" using B0 by simp
  finally have Ev2: "E * v \<le> 492 / 1000 * B" .
  have "1 / 1000 \<le> 488 / 1000 * B" using B by simp
  moreover have "492 / 1000 * B \<le> 10 ^ 308" by (simp add: B_def)
  ultimately obtain t1 where t1: "round64 (E * v) = Finite t1" "999 / 1000 * (488 / 1000 * B) \<le> t1"
    using round64_between[OF Ev1 Ev2] by blast
  have t1b: "487 / 1000 * B \<le> t1" using t1(2) B0 by simp
  \<comment> \<open>\<open>1+v\<close>\<close>
  obtain t2 where t2: "round64 (1 + v) = Finite t2" "999 / 1000 * (1489 / 1000) \<le> t2"
      "t2 \<le> 1001 / 1000 * (1491 / 1000)"
    using round64_between[of "1489 / 1000" "1 + v" "1491 / 1000"] vb by auto
  \<comment> \<open>\<open>2*v\<close>\<close>
  obtain t3 where t3: "round64 (2 * v) = Finite t3" "999 / 1000 * (978 / 1000) \<le> t3"
      "t3 \<le> 1001 / 1000 * (982 / 1000)"
    using round64_between[of "978 / 1000" "2 * v" "982 / 1000"] vb by auto
  \<comment> \<open>\<open>1-2*v\<close>\<close>
  obtain t4 where t4: "round64 (1 + - t3) = Finite t4" "999 / 1000 * (1 / 100) \<le> t4"
      "t4 \<le> 1001 / 1000 * (3 / 100)"
    using round64_between[of "1 / 100" "1 + - t3" "3 / 100"] t3 by auto
  \<comment> \<open>\<open>(1+v)*(1-2*v)\<close>\<close>
  have p1: "1 / 100 \<le> t2 * t4"
  proof -
    have "(1 / 100 :: real) \<le> (999 / 1000 * (1489 / 1000)) * (999 / 1000 * (1 / 100))" by simp
    also have "\<dots> \<le> t2 * t4" using t2(2) t4(2) by (intro mult_mono) simp_all
    finally show ?thesis .
  qed
  have p2: "t2 * t4 \<le> 5 / 100"
  proof -
    have "0 \<le> t2" "0 \<le> t4" using t2(2) t4(2) by simp_all
    then have "t2 * t4 \<le> (1001 / 1000 * (1491 / 1000)) * (1001 / 1000 * (3 / 100))"
      using t2(3) t4(3) by (intro mult_mono) simp_all
    also have "\<dots> \<le> (5 / 100 :: real)" by simp
    finally show ?thesis .
  qed
  obtain t5 where t5: "round64 (t2 * t4) = Finite t5" "999 / 1000 * (1 / 100) \<le> t5"
      "t5 \<le> 1001 / 1000 * (5 / 100)"
    using round64_between[OF p1 p2] by auto
  have t5p: "0 < t5" "t5 \<le> 6 / 100" using t5(2,3) by simp_all
  \<comment> \<open>the quotient\<close>
  have "2 ^ 1024 \<le> 8 * B" by (simp add: B_def)
  also have "8 * B \<le> (487 / 1000 * B) / (6 / 100)" using B0 by simp
  also have "\<dots> \<le> t1 / (6 / 100)" using t1b by (simp add: divide_right_mono)
  also have "\<dots> \<le> t1 / t5"
  proof -
    have "0 \<le> t1" using t1b B0 by (simp add: order_trans[of 0 "487 / 1000 * B"])
    then show ?thesis using t5p by (intro divide_left_mono) simp_all
  qed
  finally have "round64 (t1 / t5) = PosInf" by (rule rne_overflow)
  then show ?thesis
    using t1(1) t2(1) t3(1) t4(1) t5(1) t5p(1)
    by (simp add: get_lambda_binary64_def s Let_def fsub_def and_then_def)
qed

lemma extreme_lambda: "get_lambda_binary64 extreme_3D = Inr PosInf"
  by (rule lambda_overflow[OF _ _ _ literal_bounds]) (simp_all add: extreme_3D_def)

lemma mu_finite:
  assumes s: "Elas_Isot_E s = E" "Elas_Isot_v s = v"
    and vb: "489 / 1000 \<le> v" "v \<le> 491 / 1000"
    and Eb': "999 / 1000 * 10 ^ 308 \<le> E" "E \<le> 1001 / 1000 * 10 ^ 308"
  shows "\<exists>m r. get_mu_binary64 s = Inr (Finite m) \<and> round64 (2 * m) = Finite r"
proof -
  define B :: real where "B = 10 ^ 308"
  have B: "10 ^ 300 \<le> B" unfolding B_def by (rule power_increasing) simp_all
  have B0: "0 < B" unfolding B_def by simp
  have Eb: "999 / 1000 * B \<le> E" "E \<le> 1001 / 1000 * B"
    unfolding B_def by (rule Eb')+
  have E0: "0 < E" using Eb(1) B0 by simp
  obtain t2 where t2: "round64 (1 + v) = Finite t2" "999 / 1000 * (1489 / 1000) \<le> t2"
      "t2 \<le> 1001 / 1000 * (1491 / 1000)"
    using round64_between[of "1489 / 1000" "1 + v" "1491 / 1000"] vb by auto
  obtain t6 where t6: "round64 (2 * t2) = Finite t6" "999 / 1000 * (29 / 10) \<le> t6"
      "t6 \<le> 1001 / 1000 * (3)"
    using round64_between[of "29 / 10" "2 * t2" "3"] t2 by auto
  have t6p: "0 < t6" "28 / 10 \<le> t6" "t6 \<le> 31 / 10" using t6(2,3) by simp_all
  have q1: "3 / 10 * B \<le> E / t6"
  proof -
    have "3 / 10 * B \<le> (999 / 1000 * B) / (31 / 10)" using B0 by simp
    also have "\<dots> \<le> E / (31 / 10)" using Eb(1) by (simp add: divide_right_mono)
    also have "\<dots> \<le> E / t6" using E0 t6p by (intro divide_left_mono) simp_all
    finally show ?thesis .
  qed
  have q2: "E / t6 \<le> 4 / 10 * B"
  proof -
    have "E / t6 \<le> E / (28 / 10)" using E0 t6p by (intro divide_left_mono) simp_all
    also have "\<dots> \<le> (1001 / 1000 * B) / (28 / 10)" using Eb(2) by (simp add: divide_right_mono)
    also have "\<dots> \<le> 4 / 10 * B" using B0 by simp
    finally show ?thesis .
  qed
  have "1 / 1000 \<le> 3 / 10 * B" using B by simp
  moreover have "4 / 10 * B \<le> 10 ^ 308" by (simp add: B_def)
  ultimately obtain m where m: "round64 (E / t6) = Finite m" "999 / 1000 * (3 / 10 * B) \<le> m"
      "m \<le> 1001 / 1000 * (4 / 10 * B)"
    using round64_between[OF q1 q2] by blast
  have "29 / 100 * B \<le> 2 * m" "2 * m \<le> 9 / 10 * B" using m(2,3) B0 by simp_all
  moreover have "1 / 1000 \<le> 29 / 100 * B" using B by simp
  moreover have "9 / 10 * B \<le> 10 ^ 308" by (simp add: B_def)
  ultimately obtain r where r: "round64 (2 * m) = Finite r"
    using round64_between[of "29 / 100 * B" "2 * m" "9 / 10 * B"] by blast
  have "get_mu_binary64 s = Inr (Finite m)"
    using t2(1) t6(1) t6p(1) m(1) by (simp add: get_mu_binary64_def s Let_def)
  with r show ?thesis by auto
qed

lemma one_times_one: "\<exists>r. round64 1 = Finite r \<and> 0 < r"
proof -
  obtain r where "round64 1 = Finite r" "999 / 1000 * 1 \<le> r"
    using round64_between[of 1 1 1] by auto
  then show ?thesis by auto
qed

lemma extreme_stiffness:
  assumes "Elas_Isot_Behavior_binary64 np_inv extreme_3D None = Inr (C, S)"
  shows "length C = 6" "length (C ! 0) = 6" "C ! 0 ! 0 = PosInf"
proof -
  obtain m r where m: "get_mu_binary64 extreme_3D = Inr (Finite m)"
      "round64 (2 * m) = Finite r"
    using mu_finite[OF _ _ literal_bounds, of extreme_3D] by (auto simp: extreme_3D_def)
  obtain u where u: "round64 1 = Finite u" "0 < u"
    using one_times_one by blast
  have d: "Elas_Isot_dim extreme_3D = 3" by (simp add: extreme_3D_def)
  from assms have C: "C = KelvinMandel_Matrix_binary64 3
          [[PosInf, PosInf, PosInf, Finite 0, Finite 0, Finite 0],
           [PosInf, PosInf, PosInf, Finite 0, Finite 0, Finite 0],
           [PosInf, PosInf, PosInf, Finite 0, Finite 0, Finite 0],
           [Finite 0, Finite 0, Finite 0, Finite m, Finite 0, Finite 0],
           [Finite 0, Finite 0, Finite 0, Finite 0, Finite m, Finite 0],
           [Finite 0, Finite 0, Finite 0, Finite 0, Finite 0, Finite m]]"
    unfolding Elas_Isot_Behavior_binary64_def
    by (auto simp: m extreme_lambda d Let_def and_then_def split: sum.splits)
  show "length C = 6" "length (C ! 0) = 6" "C ! 0 ! 0 = PosInf"
    unfolding C using u(2)
    by (simp_all add: KelvinMandel_Matrix_binary64_def KelvinMandel_coef_binary64_def Let_def u(1)
          signed_inf_def)
qed

lemma fmul_PosInf: "fmul a PosInf \<noteq> Finite x"
  by (cases a) (simp_all add: signed_inf_def)

lemma fadd_not_finite: "(\<forall>x. a \<noteq> Finite x) \<Longrightarrow> fadd a b \<noteq> Finite y" "(\<forall>x. b \<noteq> Finite x) \<Longrightarrow> fadd a b \<noteq> Finite y"
  by (cases a; cases b; simp)+

lemma foldl_fadd_not_finite:
  "(\<forall>x. a \<noteq> Finite x) \<Longrightarrow> foldl fadd a bs \<noteq> Finite y"
proof (induction bs arbitrary: a)
  case Nil
  then show ?case by simp
next
  case (Cons b bs)
  have "\<forall>x. fadd a b \<noteq> Finite x" using Cons.prems fadd_not_finite(1) by blast
  then show ?case using Cons.IH by simp
qed

lemma product_not_finite:
  assumes P: "matmul_binary64 S C = Inr P" and "length P = 6"
    and C: "length C = 6" "length (C ! 0) = 6" "C ! 0 ! 0 = PosInf"
  shows "P ! 0 ! 0 \<noteq> Finite x"
proof -
  from P have rows: "list_all (\<lambda>row. length row = length C) S"
    and Pd: "P = map (\<lambda>row. map (\<lambda>j. foldl fadd (Finite 0) (map2 (\<lambda>a brow. fmul a (brow ! j)) row C))
                            [0..<(case C of [] \<Rightarrow> 0 | brow # _ \<Rightarrow> length brow)]) S"
    by (auto simp: matmul_binary64_def split: if_splits)
  have lS: "length S = 6" using \<open>length P = 6\<close> Pd by simp
  then obtain r0 S' where S: "S = r0 # S'" by (cases S) auto
  have "length r0 = 6" using rows C(1) S by simp
  then obtain a0 r' where r0: "r0 = a0 # r'" by (cases r0) auto
  obtain c0 C' where Cc: "C = c0 # C'" using C(1) by (cases C) auto
  have c0: "length c0 = 6" "c0 ! 0 = PosInf" using C(2,3) Cc by simp_all
  have "P ! 0 ! 0 = foldl fadd (fadd (Finite 0) (fmul a0 PosInf)) (map2 (\<lambda>a brow. fmul a (brow ! 0)) r' C')"
    unfolding Pd S r0 Cc using c0 by (simp add: upt_rec[of 0 6])
  moreover have "\<forall>x. fadd (Finite 0) (fmul a0 PosInf) \<noteq> Finite x"
    using fadd_not_finite(2) fmul_PosInf by blast
  ultimately show ?thesis using foldl_fadd_not_finite by simp
qed

section \<open>Claims about the elastic laws\<close>

text \<open>
  Claim C2, amended to exact arithmetic. For an isotropic instance of dimension 2 or 3
  with \<open>E > 0\<close> and \<open>-1 < v < 1/2\<close> (the values the setters accept), the stiffness is
  invertible, so that \<open>_Behavior\<close> returns a stiffness \<open>C\<close> and a compliance \<open>S\<close>, and
  \<open>S @ C\<close> is the identity, in the reals; it returns the same pair when called with the
  dimension of the instance and with no argument.
\<close>

theorem Elas_Isot_S_times_C_is_identity:
  assumes "0 < Elas_Isot_E s" and "- 1 < Elas_Isot_v s" and "Elas_Isot_v s < 1 / 2"
    and "Elas_Isot_dim s = 2 \<or> Elas_Isot_dim s = 3"
  shows "\<exists>C S. Elas_Isot_Behavior s None = Inr (C, S) \<and>
           Elas_Isot_Behavior s (Some (Elas_Isot_dim s)) = Inr (C, S) \<and>
           mat_mul S C = eye (if Elas_Isot_dim s = 2 then 3 else 6)"
  using Elas_Isot_Behavior_inverse[OF assms] Elas_Isot_Behavior_None[OF assms(4)]
  by (auto simp: is_inverse_def)

theorem Elas_Isot_S_times_C_is_identity_witness:
  "\<exists>C S. Elas_Isot_Behavior scenario_3D None = Inr (C, S) \<and>
     Elas_Isot_Behavior scenario_3D (Some 3) = Inr (C, S) \<and> mat_mul S C = eye 6"
  using Elas_Isot_S_times_C_is_identity [of scenario_3D]
  by (simp add: scenario_3D_def)

text \<open>
  Claim C2 as it is stated, for the floats of the program: the tolerance \<open>1e-10\<close> does
  not hold for every admissible pair. The constructor accepts
  \<open>Elas_Isot(3, E=1e308, v=0.49)\<close>; in binary64 the quotient \<open>E*v/((1+v)*(1-2*v))\<close> of
  \<open>get_lambda\<close> exceeds the largest float and is \<open>inf\<close>, so \<open>C[0][0]\<close> is \<open>inf\<close>, and
  whatever matrix \<open>np.linalg.inv\<close> returns for this \<open>C\<close>, the entry \<open>(0, 0)\<close> of \<open>S @ C\<close> is
  an infinity or \<open>nan\<close>: the product is not within \<open>1e-10\<close> of the identity.
\<close>

theorem Elas_Isot_binary64_tolerance_fails:
  "Elas_Isot_init 3 (rne (10 ^ 308)) (rne (49 / 100)) True 1 = Inr extreme_3D \<and>
   get_lambda_binary64 extreme_3D = Inr PosInf \<and>
   \<not> (\<exists>np_inv C S P. Elas_Isot_Behavior_binary64 np_inv extreme_3D None = Inr (C, S) \<and>
         matmul_binary64 S C = Inr P \<and> identity_within (1 / 10 ^ 10) 6 P)"
proof (intro conjI notI)
  show "Elas_Isot_init 3 (rne (10 ^ 308)) (rne (49 / 100)) True 1 = Inr extreme_3D"
    by (rule extreme_init)
  show "get_lambda_binary64 extreme_3D = Inr PosInf" by (rule extreme_lambda)
  assume "\<exists>np_inv C S P. Elas_Isot_Behavior_binary64 np_inv extreme_3D None = Inr (C, S) \<and>
         matmul_binary64 S C = Inr P \<and> identity_within (1 / 10 ^ 10) 6 P"
  then obtain np_inv C S P where run: "Elas_Isot_Behavior_binary64 np_inv extreme_3D None = Inr (C, S)"
    and P: "matmul_binary64 S C = Inr P" and I: "identity_within (1 / 10 ^ 10) 6 P"
    by blast
  have l: "length P = 6" using I by (simp add: identity_within_def)
  have "\<exists>x. P ! 0 ! 0 = Finite x"
    using I by (auto simp: identity_within_def upt_rec[of 0 6] split: f64.splits)
  then show False
    using product_not_finite[OF P l extreme_stiffness[OF run]] by blast
qed

text \<open>
  Claim C3. For an isotropic instance with \<open>E > 0\<close> and admissible \<open>v\<close>: \<open>get_mu\<close> returns
  \<open>E/(2(1+v))\<close>; \<open>get_lambda\<close> returns \<open>Ev/((1+v)(1-2v))\<close>, except in dimension 2 under
  plane stress, where it returns \<open>Ev/(1-v^2)\<close>; \<open>get_bulk\<close> returns \<open>lambda + 2 mu/dim\<close>.
  For \<open>dim = 3\<close>, \<open>E = 210000\<close>, \<open>v = 0.3\<close>: \<open>mu\<close> is 80769.23 and \<open>lambda\<close> is
  121153.85 within 0.01, and \<open>C[0][0] = lambda + 2 mu\<close> is 282692.3 within 0.1.
\<close>

theorem Elas_Isot_derived_moduli:
  "(0 < Elas_Isot_E s \<and> - 1 < Elas_Isot_v s \<and> Elas_Isot_v s < 1 / 2 \<and>
      (Elas_dim s = 2 \<or> Elas_dim s = 3) \<longrightarrow>
     get_mu s = Inr (Elas_Isot_E s / (2 * (1 + Elas_Isot_v s))) \<and>
     get_lambda s =
       Inr (if Elas_Isot_dim s = 2 \<and> Elas_planeStress s
            then Elas_Isot_E s * Elas_Isot_v s / (1 - (Elas_Isot_v s)\<^sup>2)
            else Elas_Isot_E s * Elas_Isot_v s /
                   ((1 + Elas_Isot_v s) * (1 - 2 * Elas_Isot_v s))) \<and>
     (\<forall>mu l. get_mu s = Inr mu \<and> get_lambda s = Inr l \<longrightarrow>
        get_bulk s = Inr (l + 2 * mu / of_int (Elas_dim s)))) \<and>
   (\<exists>mu l C s'.
      Elas_Isot_init 3 210000 (3 / 10) True 1 = Inr scenario_3D \<and>
      get_mu scenario_3D = Inr mu \<and> \<bar>mu - 8076923 / 100\<bar> \<le> 1 / 100 \<and>
      get_lambda scenario_3D = Inr l \<and> \<bar>l - 12115385 / 100\<bar> \<le> 1 / 100 \<and>
      Elas_Isot_C scenario_3D = (Inr C, s') \<and>
      C ! 0 ! 0 = l + 2 * mu \<and> \<bar>C ! 0 ! 0 - 2826923 / 10\<bar> \<le> 1 / 10)"
proof (intro conjI impI)
  assume a: "0 < Elas_Isot_E s \<and> - 1 < Elas_Isot_v s \<and> Elas_Isot_v s < 1 / 2 \<and>
      (Elas_dim s = 2 \<or> Elas_dim s = 3)"
  then have mu: "get_mu s = Inr (Elas_Isot_E s / (2 * (1 + Elas_Isot_v s)))"
    by (intro get_mu_admissible) simp
  from a have l: "get_lambda s =
     Inr (if Elas_Isot_dim s = 2 \<and> Elas_planeStress s
          then Elas_Isot_E s * Elas_Isot_v s / (1 - (Elas_Isot_v s)\<^sup>2)
          else Elas_Isot_E s * Elas_Isot_v s / ((1 + Elas_Isot_v s) * (1 - 2 * Elas_Isot_v s)))"
    by (intro get_lambda_admissible) simp_all
  from a have d: "Elas_dim s = 2 \<or> Elas_dim s = 3" by simp
  show "get_mu s = Inr (Elas_Isot_E s / (2 * (1 + Elas_Isot_v s)))" by (rule mu)
  show "get_lambda s =
       Inr (if Elas_Isot_dim s = 2 \<and> Elas_planeStress s
            then Elas_Isot_E s * Elas_Isot_v s / (1 - (Elas_Isot_v s)\<^sup>2)
            else Elas_Isot_E s * Elas_Isot_v s /
                   ((1 + Elas_Isot_v s) * (1 - 2 * Elas_Isot_v s)))" by (rule l)
  show "\<forall>mu l. get_mu s = Inr mu \<and> get_lambda s = Inr l \<longrightarrow>
        get_bulk s = Inr (l + 2 * mu / of_int (Elas_dim s))"
    using get_bulk_admissible d by blast
next
  obtain s' where C: "Elas_Isot_C scenario_3D =
      (Inr (iso3 (3675000 / 13) (1575000 / 13) (2100000 / 13)), s')"
    using scenario_3D_C by blast
  have e: "iso3 (3675000 / 13) (1575000 / 13) (2100000 / 13) ! 0 ! 0 = 3675000 / 13"
    by (simp add: iso3_def)
  show "\<exists>mu l C s'.
      Elas_Isot_init 3 210000 (3 / 10) True 1 = Inr scenario_3D \<and>
      get_mu scenario_3D = Inr mu \<and> \<bar>mu - 8076923 / 100\<bar> \<le> 1 / 100 \<and>
      get_lambda scenario_3D = Inr l \<and> \<bar>l - 12115385 / 100\<bar> \<le> 1 / 100 \<and>
      Elas_Isot_C scenario_3D = (Inr C, s') \<and>
      C ! 0 ! 0 = l + 2 * mu \<and> \<bar>C ! 0 ! 0 - 2826923 / 10\<bar> \<le> 1 / 10"
    apply (rule exI[of _ "1050000 / 13"])
    apply (rule exI[of _ "1575000 / 13"])
    apply (rule exI[of _ "iso3 (3675000 / 13) (1575000 / 13) (2100000 / 13)"])
    apply (rule exI[of _ s'])
    apply (simp add: scenario_init scenario_3D_moduli C e)
    done
qed

theorem Elas_Isot_derived_moduli_witness:
  "get_mu scenario_2D = Inr (210000 / (2 * (1 + 3 / 10))) \<and>
   get_lambda scenario_2D = Inr (210000 * (3 / 10) / (1 - (3 / 10)\<^sup>2)) \<and>
   get_bulk scenario_2D =
     Inr (210000 * (3 / 10) / (1 - (3 / 10)\<^sup>2) + 2 * (210000 / (2 * (1 + 3 / 10))) / 2)"
proof -
  have h: "0 < Elas_Isot_E scenario_2D \<and> - 1 < Elas_Isot_v scenario_2D \<and>
      Elas_Isot_v scenario_2D < 1 / 2 \<and> (Elas_dim scenario_2D = 2 \<or> Elas_dim scenario_2D = 3)"
    by (simp add: scenario_2D_def)
  have f: "Elas_Isot_E scenario_2D = 210000" "Elas_Isot_v scenario_2D = 3 / 10"
    "Elas_Isot_dim scenario_2D = 2" "Elas_planeStress scenario_2D" "Elas_dim scenario_2D = 2"
    by (simp_all add: scenario_2D_def)
  from Elas_Isot_derived_moduli [of scenario_2D] h
  have mu: "get_mu scenario_2D = Inr (Elas_Isot_E scenario_2D / (2 * (1 + Elas_Isot_v scenario_2D)))"
    and l: "get_lambda scenario_2D =
       Inr (if Elas_Isot_dim scenario_2D = 2 \<and> Elas_planeStress scenario_2D
            then Elas_Isot_E scenario_2D * Elas_Isot_v scenario_2D /
                   (1 - (Elas_Isot_v scenario_2D)\<^sup>2)
            else Elas_Isot_E scenario_2D * Elas_Isot_v scenario_2D /
                   ((1 + Elas_Isot_v scenario_2D) * (1 - 2 * Elas_Isot_v scenario_2D)))"
    and b: "\<forall>mu l. get_mu scenario_2D = Inr mu \<and> get_lambda scenario_2D = Inr l \<longrightarrow>
        get_bulk scenario_2D = Inr (l + 2 * mu / of_int (Elas_dim scenario_2D))"
    by blast+
  from b mu l have "get_bulk scenario_2D =
      Inr ((if Elas_Isot_dim scenario_2D = 2 \<and> Elas_planeStress scenario_2D
            then Elas_Isot_E scenario_2D * Elas_Isot_v scenario_2D /
                   (1 - (Elas_Isot_v scenario_2D)\<^sup>2)
            else Elas_Isot_E scenario_2D * Elas_Isot_v scenario_2D /
                   ((1 + Elas_Isot_v scenario_2D) * (1 - 2 * Elas_Isot_v scenario_2D)))
           + 2 * (Elas_Isot_E scenario_2D / (2 * (1 + Elas_Isot_v scenario_2D)))
               / of_int (Elas_dim scenario_2D))"
    by blast
  with mu l show ?thesis using f by simp
qed

text \<open>
  Claim C7. Assigning a value \<open><= 0\<close> to \<open>E\<close>, or a value outside the open interval
  \<open>(-1, 1/2)\<close> to \<open>v\<close>, raises the parameter-out-of-domain error and leaves the whole
  instance as it was: the stored \<open>E\<close> and \<open>v\<close>, the caches \<open>C\<close> and \<open>S\<close>, and the flag.
\<close>

theorem setters_reject_and_keep_state:
  "(value \<le> 0 \<longrightarrow> E_setter value s = (Inl ParameterOutOfDomain, s)) \<and>
   (\<not> (- 1 < value \<and> value < 1 / 2) \<longrightarrow> v_setter value s = (Inl ParameterOutOfDomain, s))"
  by (simp add: E_setter_def v_setter_def Test_Sup0_def Test_In_def)

theorem setters_reject_and_keep_state_witness:
  "E_setter (- 5) scenario_2D = (Inl ParameterOutOfDomain, scenario_2D) \<and>
   v_setter (- 5) scenario_2D = (Inl ParameterOutOfDomain, scenario_2D)"
  using setters_reject_and_keep_state [of "- 5" scenario_2D] by simp

text \<open>
  Claim C10. Assigning a value that is not a \<open>bool\<close> to \<open>planeStress\<close> raises nothing and
  leaves the instance as it was: the flag \<open>planeStress\<close>, the flag \<open>needUpdate\<close> and the
  caches. The setter belongs to \<open>_Elas\<close>, so this holds for each of the three laws.
\<close>

theorem planeStress_setter_ignores_non_bool:
  assumes "\<forall>b. value \<noteq> PyBool b"
  shows "planeStress_setter value s = (Inr (), s)"
proof (cases "value")
  case (PyBool b)
  with assms show ?thesis by blast
qed (simp_all add: planeStress_setter_def)

theorem planeStress_setter_ignores_non_bool_witness:
  "planeStress_setter (PyInt 1) scenario_2D = (Inr (), scenario_2D) \<and>
   planeStress_setter (PyStr ''False'') scenario_2D = (Inr (), scenario_2D)"
  using planeStress_setter_ignores_non_bool [of "PyInt 1" scenario_2D]
    planeStress_setter_ignores_non_bool [of "PyStr ''False''" scenario_2D]
  by simp

text \<open>
  Claim C6, at an input where the code departs from it. The axes \<open>(1, 0, 0)\<close> and
  \<open>(-1, 1, 0)\<close> have the dot product \<open>-1\<close>, which differs from zero by more than
  \<open>1e-12\<close>; the assertion of \<open>__init__\<close> tests \<open>axis_l @ axis_t <= 1e-12\<close>, which \<open>-1\<close>
  passes, and the transversely isotropic law is constructed.
\<close>

theorem Elas_IsotTrans_init_accepts_negative_dot:
  "\<bar>dot [1, 0, 0] [- 1, 1, 0] - 0\<bar> > tol12 \<and>
   Elas_IsotTrans_init 3 1 1 1 0 0 [1, 0, 0] [- 1, 1, 0] True 1 =
     Inr \<lparr>needUpdate = True, Elas_dim = 3, Elas_thickness = None, Elas_planeStress = False,
          Elas_C = None, Elas_S = None, Elas_IsotTrans_dim = 3,
          Elas_IsotTrans_El = 1, Elas_IsotTrans_Et = 1, Elas_IsotTrans_Gl = 1,
          Elas_IsotTrans_vl = 0, Elas_IsotTrans_vt = 0,
          Elas_IsotTrans_axis_l = [1, 0, 0],
          Elas_IsotTrans_axis_t = [- 1 / sqrt 2, 1 / sqrt 2, 0]\<rparr>"
  by (simp add: Elas_IsotTrans_init_def and_then_def py_assert_def Test_Sup0_def Test_In_def
      As_Coordinates_def dot_def tol12_def Normalize_vect_def linalg_norm1_def)

text \<open>
  Claim C5, at an input where the code departs from it. On the two-dimensional
  instance \<open>Elas_Isot(2, E=210000, v=0.3, planeStress=True)\<close>, which is not heterogeneous,
  \<open>Walpole_Decomposition\<close> subtracts the 3 by 3 matrix \<open>C\<close> from the 6 by 6 sum of
  \<open>ci * Ei\<close>; numpy cannot broadcast the two shapes and raises \<open>ValueError\<close>, so nothing is
  returned. In dimension 3 the decomposition is returned and the identity is exact
  (lemma \<open>Elas_Isot_Walpole_3D\<close>).
\<close>

theorem Elas_Isot_Walpole_Decomposition_2D_raises:
  "fst (Elas_Isot_Walpole_Decomposition scenario_2D) = Inl ValueError"
proof -
  have "\<exists>s'. Elas_Isot_Walpole_Decomposition scenario_2D = (Inl ValueError, s')"
    by (rule Elas_Isot_Walpole_2D) (simp_all add: scenario_2D_def)
  then show ?thesis by auto
qed



end
